theory Spec2Isabelle
  imports Main "HOL-Library.Word" "HOL-Library.Char_ord" "HOL-Library.List_Lexorder"
begin

unbundle bit_operations_syntax

section \<open>Procedure-path normalization\<close>

text \<open>
  Go strings are byte sequences and the separator of \<^verbatim>\<open>strings.Split(url, "/")\<close> is
  the single byte \<open>0x2F\<close>, which never occurs inside a multi-byte UTF-8 sequence, so a
  \<open>string\<close> (a list of 8-bit characters) cut at every \<open>CHR ''/''\<close> is what the library
  call returns: one more segment than there are separators, never the empty slice.
\<close>

fun strings_Split :: "string \<Rightarrow> string list" where
  "strings_Split [] = [[]]"
| "strings_Split (c # cs) =
     (if c = CHR ''/'' then [] # strings_Split cs
      else (case strings_Split cs of
              [] \<Rightarrow> [[c]]
            | seg # segs \<Rightarrow> (c # seg) # segs))"

text \<open>
  \<^verbatim>\<open>extractProtoPath\<close>: the switch on the number of segments, in the order of the
  source; the indices \<open>segmentsLen - 2\<close> and \<open>segmentsLen - 1\<close> are in range in the
  first case and \<open>0\<close> is in range in the second.
\<close>

definition extractProtoPath :: "string \<Rightarrow> string" where
  "extractProtoPath url =
     (let segments = strings_Split url; segmentsLen = length segments in
      if segmentsLen > 1 then
        (let pkg = segments ! (segmentsLen - 2); method = segments ! (segmentsLen - 1)
         in ''/'' @ pkg @ ''/'' @ method)
      else if segmentsLen = 1 then
        (let pkg = segments ! 0 in ''/'' @ pkg)
      else ''/'')"

text \<open>
  The reading of the specification's sentence for the normal form: keep the non-empty
  segments only, and return the last two of them (or the only one, or nothing) behind
  a slash. It is compared with \<open>extractProtoPath\<close> below.
\<close>

definition spec_trailing_nonempty :: "string \<Rightarrow> string" where
  "spec_trailing_nonempty url =
     (let segs = filter (\<lambda>s. s \<noteq> []) (strings_Split url); n = length segs in
      if n > 1 then ''/'' @ segs ! (n - 2) @ ''/'' @ segs ! (n - 1)
      else if n = 1 then ''/'' @ segs ! 0
      else ''/'')"

section \<open>Errors\<close>

text \<open>
  Modelled from the spec: the code taxonomy and the structured error type (the files
  that declare \<^verbatim>\<open>Code\<close>, \<^verbatim>\<open>Error\<close>, \<^verbatim>\<open>NewError\<close> and \<^verbatim>\<open>errorf\<close> are not among the
  sources). An error value is the end-of-stream sentinel \<^verbatim>\<open>io.EOF\<close>, a plain error made
  by \<^verbatim>\<open>errors.New\<close>, a structured error made by \<^verbatim>\<open>NewError\<close> from a code and the error it
  wraps, any other wrapper that unwraps to an inner error, or one of the two errors a
  context reports. A nil \<^verbatim>\<open>error\<close> is \<open>None\<close> of \<open>goerror option\<close>.
\<close>

datatype Code =
    CodeCanceled | CodeUnknown | CodeInvalidArgument | CodeDeadlineExceeded
  | CodeUnimplemented | CodeInternal | CodeUnavailable

datatype goerror =
    io_EOF
  | errors_New string
  | NewError Code goerror
  | Wrapping string goerror
  | context_Canceled
  | context_DeadlineExceeded

text \<open>\<^verbatim>\<open>errors.Is(err, io.EOF)\<close>: follow the chain of wrapped errors down to the sentinel.\<close>

fun errors_Is_EOF :: "goerror \<Rightarrow> bool" where
  "errors_Is_EOF io_EOF = True"
| "errors_Is_EOF (NewError c e) = errors_Is_EOF e"
| "errors_Is_EOF (Wrapping s e) = errors_Is_EOF e"
| "errors_Is_EOF (errors_New s) = False"
| "errors_Is_EOF context_Canceled = False"
| "errors_Is_EOF context_DeadlineExceeded = False"

text \<open>
  Modelled from the spec: \<^verbatim>\<open>errorf(code, template, args...)\<close> builds the structured error
  of that code around the formatted message.
\<close>

definition errorf :: "Code \<Rightarrow> string \<Rightarrow> goerror" where
  "errorf c message = NewError c (errors_New message)"

section \<open>Envelopes and header maps\<close>

text \<open>
  An \<^verbatim>\<open>http.Header\<close> is a Go map, that is a reference: \<open>None\<close> is the nil map and
  \<open>Some a\<close> the map object at address \<open>a\<close> of the heap. Two holders of the same
  address see each other's writes. \<^verbatim>\<open>make(http.Header)\<close> takes the next unused address
  and stores an empty map there.
\<close>

type_synonym header_map = "string \<rightharpoonup> string list"

type_synonym http_Header = "nat option"

record heap =
  objs :: "nat \<rightharpoonup> header_map"
  next_addr :: nat

definition make_Header :: "'a heap_scheme \<Rightarrow> http_Header \<times> 'a heap_scheme" where
  "make_Header h =
     (Some (next_addr h),
      h\<lparr>objs := (objs h)(next_addr h \<mapsto> Map.empty), next_addr := Suc (next_addr h)\<rparr>)"

text \<open>
  Writing and reading through a reference. \<^verbatim>\<open>Header.Set\<close> on the nil map panics
  (\<open>None\<close>); reading a key of the nil map finds nothing.
\<close>

definition Header_Set ::
  "http_Header \<Rightarrow> string \<Rightarrow> string \<Rightarrow> 'a heap_scheme \<Rightarrow> 'a heap_scheme option" where
  "Header_Set m key v h =
     (case m of
        None \<Rightarrow> None
      | Some a \<Rightarrow>
          (case objs h a of
             None \<Rightarrow> None
           | Some mp \<Rightarrow> Some (h\<lparr>objs := (objs h)(a \<mapsto> mp(key \<mapsto> [v]))\<rparr>)))"

definition Header_Values :: "'a heap_scheme \<Rightarrow> http_Header \<Rightarrow> string \<Rightarrow> string list" where
  "Header_Values h m key =
     (case m of
        None \<Rightarrow> []
      | Some a \<Rightarrow>
          (case objs h a of
             None \<Rightarrow> []
           | Some mp \<Rightarrow> (case mp key of None \<Rightarrow> [] | Some vs \<Rightarrow> vs)))"

text \<open>
  \<^verbatim>\<open>StreamType\<close> is a \<^verbatim>\<open>uint8\<close> of two independent bits; \<^verbatim>\<open>Spec\<close> and \<^verbatim>\<open>Peer\<close> are plain
  structs.
\<close>

type_synonym StreamType = "8 word"

definition StreamTypeUnary :: StreamType where "StreamTypeUnary = 0"
definition StreamTypeClient :: StreamType where "StreamTypeClient = 1"
definition StreamTypeServer :: StreamType where "StreamTypeServer = 2"
definition StreamTypeBidi :: StreamType where
  "StreamTypeBidi = StreamTypeClient OR StreamTypeServer"

record Spec =
  StreamType :: StreamType
  Procedure :: string
  IsClient :: bool

record Peer =
  Addr :: string

definition zero_Spec :: Spec where
  "zero_Spec = \<lparr>StreamType = 0, Procedure = [], IsClient = False\<rparr>"

definition zero_Peer :: Peer where
  "zero_Peer = \<lparr>Addr = []\<rparr>"

text \<open>
  Payload messages are opaque to every function modelled here; a message is named by
  its contents, and the type argument \<open>T\<close> of \<^verbatim>\<open>Request[T]\<close> and \<^verbatim>\<open>Response[T]\<close>, which
  Go keeps in the dynamic type of an interface value, is the field \<open>req_T\<close> (\<open>res_T\<close>).
  The fields are the source's, prefixed by the struct they belong to.
\<close>

type_synonym message = string

record Request =
  req_T :: string
  req_Msg :: message
  req_spec :: Spec
  req_peer :: Peer
  req_header :: http_Header

record Response =
  res_T :: string
  res_Msg :: message
  res_header :: http_Header
  res_trailer :: http_Header

definition NewRequest :: "string \<Rightarrow> message \<Rightarrow> Request" where
  "NewRequest T msg =
     \<lparr>req_T = T, req_Msg = msg, req_spec = zero_Spec, req_peer = zero_Peer,
      req_header = None\<rparr>"

definition NewResponse :: "string \<Rightarrow> message \<Rightarrow> Response" where
  "NewResponse T msg = \<lparr>res_T = T, res_Msg = msg, res_header = None, res_trailer = None\<rparr>"

text \<open>
  The accessors have a pointer receiver and assign to its field, so each returns the
  map, the envelope as it is after the call, and the heap after the call.
\<close>

definition Request_Header ::
  "Request \<Rightarrow> 'a heap_scheme \<Rightarrow> http_Header \<times> Request \<times> 'a heap_scheme" where
  "Request_Header r h =
     (if req_header r = None then
        (let (m, h') = make_Header h; r' = r\<lparr>req_header := m\<rparr>
         in (req_header r', r', h'))
      else (req_header r, r, h))"

definition Response_Header ::
  "Response \<Rightarrow> 'a heap_scheme \<Rightarrow> http_Header \<times> Response \<times> 'a heap_scheme" where
  "Response_Header r h =
     (if res_header r = None then
        (let (m, h') = make_Header h; r' = r\<lparr>res_header := m\<rparr>
         in (res_header r', r', h'))
      else (res_header r, r, h))"

definition Response_Trailer ::
  "Response \<Rightarrow> 'a heap_scheme \<Rightarrow> http_Header \<times> Response \<times> 'a heap_scheme" where
  "Response_Trailer r h =
     (if res_trailer r = None then
        (let (m, h') = make_Header h; r' = r\<lparr>res_trailer := m\<rparr>
         in (res_trailer r', r', h'))
      else (res_trailer r, r, h))"

section \<open>The buffer pool\<close>

text \<open>
  A \<^verbatim>\<open>bytes.Buffer\<close> is its unread contents and the capacity of its backing slice;
  \<^verbatim>\<open>Reset\<close> empties the contents and keeps the capacity.
\<close>

record bytes_Buffer =
  buf :: "8 word list"
  cap :: nat

definition initialBufferSize :: nat where
  "initialBufferSize = 512"

definition maxRecycleBufferSize :: nat where
  "maxRecycleBufferSize = push_bit 20 8"

definition Buffer_Reset :: "bytes_Buffer \<Rightarrow> bytes_Buffer" where
  "Buffer_Reset b = b\<lparr>buf := []\<rparr>"

text \<open>
  The pool holds pointers. A \<^verbatim>\<open>*bytes.Buffer\<close> is an address of the heap of buffers, and
  whoever holds the address reads and changes the buffer behind it, also after handing
  the address to the pool. The embedded \<^verbatim>\<open>sync.Pool\<close> is the collection of the addresses
  put into it. Its \<^verbatim>\<open>Get\<close> may take any item out, or ignore them all and call \<^verbatim>\<open>New\<close>;
  which one is the argument \<open>choice\<close>: \<open>Some i\<close> takes the item at position \<open>i\<close> if there
  is one, anything else makes a new buffer. \<^verbatim>\<open>New\<close> is the function \<^verbatim>\<open>newBufferPool\<close>
  installs: it allocates a buffer of no contents and the initial capacity.
\<close>

record bufferPool =
  bufs :: "nat \<rightharpoonup> bytes_Buffer"
  next_buf :: nat
  Pool :: "nat list"

definition Pool_New :: bytes_Buffer where
  "Pool_New = \<lparr>buf = [], cap = initialBufferSize\<rparr>"

definition newBufferPool :: bufferPool where
  "newBufferPool = \<lparr>bufs = Map.empty, next_buf = 0, Pool = []\<rparr>"

definition bytes_NewBuffer :: "bytes_Buffer \<Rightarrow> bufferPool \<Rightarrow> nat \<times> bufferPool" where
  "bytes_NewBuffer x b =
     (next_buf b, b\<lparr>bufs := (bufs b)(next_buf b \<mapsto> x), next_buf := Suc (next_buf b)\<rparr>)"

definition sync_Pool_Get :: "nat option \<Rightarrow> bufferPool \<Rightarrow> nat \<times> bufferPool" where
  "sync_Pool_Get choice b =
     (case choice of
        None \<Rightarrow> bytes_NewBuffer Pool_New b
      | Some i \<Rightarrow>
          if i < length (Pool b)
          then (Pool b ! i, b\<lparr>Pool := take i (Pool b) @ drop (Suc i) (Pool b)\<rparr>)
          else bytes_NewBuffer Pool_New b)"

definition sync_Pool_Put :: "nat \<Rightarrow> bufferPool \<Rightarrow> bufferPool" where
  "sync_Pool_Put x b = b\<lparr>Pool := x # Pool b\<rparr>"

text \<open>
  \<^verbatim>\<open>bufferPool.Get\<close> and \<^verbatim>\<open>bufferPool.Put\<close>. The type assertion of \<^verbatim>\<open>Get\<close> cannot fail:
  only \<^verbatim>\<open>Put\<close> and \<^verbatim>\<open>New\<close> supply items, and both supply buffers. \<^verbatim>\<open>Put\<close> reads the
  capacity through the pointer and resets the buffer in place; on a pointer to no
  buffer it panics (\<open>None\<close>).
\<close>

definition bufferPool_Get :: "nat option \<Rightarrow> bufferPool \<Rightarrow> nat \<times> bufferPool" where
  "bufferPool_Get choice b = sync_Pool_Get choice b"

definition bufferPool_Put :: "nat \<Rightarrow> bufferPool \<Rightarrow> bufferPool option" where
  "bufferPool_Put buffer b =
     (case bufs b buffer of
        None \<Rightarrow> None
      | Some x \<Rightarrow>
          if cap x > maxRecycleBufferSize then Some b
          else Some (sync_Pool_Put buffer (b\<lparr>bufs := (bufs b)(buffer \<mapsto> Buffer_Reset x)\<rparr>)))"

text \<open>
  A client of the pool is a sequence of steps: it acquires a buffer, releases the buffer
  at an address, makes a buffer of its own, or changes the buffer at an address it
  holds in any way a holder can (writing, growing, truncating, assigning). \<open>pool_run\<close>
  performs the steps in order, with the buffers released so far (as they were when
  released) beside it, and returns for each acquisition the buffer it returned, as it
  is at that moment, and the buffers released before it. A step on a pointer to no
  buffer panics and ends the run.
\<close>

datatype pool_op = Get "nat option" | Put nat | Make bytes_Buffer | Change nat bytes_Buffer

fun pool_run ::
  "pool_op list \<Rightarrow> bufferPool \<Rightarrow> bytes_Buffer list
     \<Rightarrow> (bytes_Buffer \<times> bytes_Buffer list) list" where
  "pool_run [] b rel = []"
| "pool_run (Get choice # ops) b rel =
     (case bufferPool_Get choice b of
        (a, b') \<Rightarrow>
          (case bufs b' a of
             None \<Rightarrow> []
           | Some x \<Rightarrow> (x, rel) # pool_run ops b' rel))"
| "pool_run (Put a # ops) b rel =
     (case bufs b a of
        None \<Rightarrow> []
      | Some x \<Rightarrow>
          (case bufferPool_Put a b of
             None \<Rightarrow> []
           | Some b' \<Rightarrow> pool_run ops b' (x # rel)))"
| "pool_run (Make x # ops) b rel = pool_run ops (snd (bytes_NewBuffer x b)) rel"
| "pool_run (Change a x # ops) b rel =
     (case bufs b a of
        None \<Rightarrow> []
      | Some old \<Rightarrow> pool_run ops (b\<lparr>bufs := (bufs b)(a \<mapsto> x)\<rparr>) rel)"

text \<open>
  The discipline of a client that does not touch a buffer it has released: no step
  changes the buffer at an address while the pool holds that address.
\<close>

fun hands_off :: "pool_op list \<Rightarrow> bufferPool \<Rightarrow> bool" where
  "hands_off [] b = True"
| "hands_off (Get choice # ops) b = hands_off ops (snd (bufferPool_Get choice b))"
| "hands_off (Put a # ops) b =
     (case bufferPool_Put a b of None \<Rightarrow> True | Some b' \<Rightarrow> hands_off ops b')"
| "hands_off (Make x # ops) b = hands_off ops (snd (bytes_NewBuffer x b))"
| "hands_off (Change a x # ops) b =
     (a \<notin> set (Pool b) \<and>
      (case bufs b a of
         None \<Rightarrow> True
       | Some old \<Rightarrow> hands_off ops (b\<lparr>bufs := (bufs b)(a \<mapsto> x)\<rparr>)))"

text \<open>
  What the pool holds between two steps: allocated addresses only, below the next
  address to be given out, each with a buffer that satisfies \<open>Q\<close>.
\<close>

definition pool_holds :: "(bytes_Buffer \<Rightarrow> bool) \<Rightarrow> bufferPool \<Rightarrow> bool" where
  "pool_holds Q b \<longleftrightarrow>
     (\<forall>a. bufs b a \<noteq> None \<longrightarrow> a < next_buf b) \<and>
     (\<forall>a \<in> set (Pool b). \<exists>x. bufs b a = Some x \<and> Q x)"

text \<open>
  The property of an acquired buffer \<open>x\<close>, given the buffers \<open>rel\<close> released before it.
\<close>

definition recycled :: "bytes_Buffer list \<Rightarrow> bytes_Buffer \<Rightarrow> bool" where
  "recycled rel x \<longleftrightarrow>
     buf x = [] \<and> cap x \<le> maxRecycleBufferSize \<and>
     (x = \<lparr>buf = [], cap = initialBufferSize\<rparr> \<or> (\<exists>y \<in> set rel. x = \<lparr>buf = [], cap = cap y\<rparr>)) \<and>
     ((\<forall>y \<in> set rel. initialBufferSize \<le> cap y) \<longrightarrow> initialBufferSize \<le> cap x)"

section \<open>The client-side unary helper\<close>

text \<open>
  The methods of \<^verbatim>\<open>StreamingClientConn\<close> that \<^verbatim>\<open>receiveUnaryResponse\<close> calls, as functions
  on the state \<open>'s\<close> of the connection. \<^verbatim>\<open>Receive\<close> fills the message it is given and
  returns nil (\<open>Inr\<close> of the message) or returns an error (\<open>Inl\<close>).
\<close>

record 's StreamingClientConn =
  Receive :: "'s \<Rightarrow> (goerror + message) \<times> 's"
  ResponseHeader :: "'s \<Rightarrow> http_Header \<times> 's"
  ResponseTrailer :: "'s \<Rightarrow> http_Header \<times> 's"

definition receiveUnaryResponse ::
  "string \<Rightarrow> 's StreamingClientConn \<Rightarrow> 's \<Rightarrow> (goerror + Response) \<times> 's" where
  "receiveUnaryResponse T conn s =
     (case Receive conn s of
        (Inl err, s1) \<Rightarrow> (Inl err, s1)
      | (Inr msg, s1) \<Rightarrow>
          (case Receive conn s1 of
             (Inr second, s2) \<Rightarrow>
               (Inl (NewError CodeUnknown (errors_New ''unary stream has multiple messages'')), s2)
           | (Inl err, s2) \<Rightarrow>
               if \<not> errors_Is_EOF err then (Inl (NewError CodeUnknown err), s2)
               else
                 (let (hdr, s3) = ResponseHeader conn s2;
                      (tr, s4) = ResponseTrailer conn s3
                  in (Inr \<lparr>res_T = T, res_Msg = msg, res_header = hdr, res_trailer = tr\<rparr>, s4))))"

section \<open>The handler\<close>

text \<open>
  What a handler works on. A \<^verbatim>\<open>context.Context\<close> is an identity and what its \<^verbatim>\<open>Err\<close>
  reports when asked. An inbound \<^verbatim>\<open>http.Request\<close> is the four parts \<^verbatim>\<open>ServeHTTP\<close> reads;
  its header is held by value, since \<^verbatim>\<open>ServeHTTP\<close> is the only writer and passes the
  request on after writing. A \<^verbatim>\<open>http.ResponseWriter\<close> is its header map and the status
  codes given to \<^verbatim>\<open>WriteHeader\<close>, in order. The world of one request is the heap of
  header maps, the response writer, and the state \<open>'s\<close> of the network streams.
\<close>

record context_Context =
  ctx_id :: nat
  ctx_Err :: "goerror option"

record http_Request =
  Method :: string
  ProtoMajor :: int
  Header :: header_map
  Context :: context_Context

record ResponseWriter =
  rw_Header :: header_map
  rw_status :: "nat list"

record 's world = heap +
  writer :: ResponseWriter
  net :: 's

definition MethodPost :: string where
  "MethodPost = ''POST''"

definition StatusMethodNotAllowed :: nat where
  "StatusMethodNotAllowed = 405"

definition StatusUnsupportedMediaType :: nat where
  "StatusUnsupportedMediaType = 415"

definition StatusHTTPVersionNotSupported :: nat where
  "StatusHTTPVersionNotSupported = 505"

text \<open>
  \<^verbatim>\<open>Header.Get\<close> returns the first value of the key, or the empty string;
  \<^verbatim>\<open>Header.Set\<close> replaces the values of the key by the one given. The keys used by
  \<^verbatim>\<open>ServeHTTP\<close> are written in their canonical form already.
\<close>

definition header_Get :: "header_map \<Rightarrow> string \<Rightarrow> string" where
  "header_Get m key = (case m key of None \<Rightarrow> [] | Some [] \<Rightarrow> [] | Some (v # vs) \<Rightarrow> v)"

definition header_Set :: "header_map \<Rightarrow> string \<Rightarrow> string \<Rightarrow> header_map" where
  "header_Set m key v = m(key \<mapsto> [v])"

definition rw_Header_Set :: "string \<Rightarrow> string \<Rightarrow> 's world \<Rightarrow> 's world" where
  "rw_Header_Set key v w =
     w\<lparr>writer := (writer w)\<lparr>rw_Header := header_Set (rw_Header (writer w)) key v\<rparr>\<rparr>"

definition rw_WriteHeader :: "nat \<Rightarrow> 's world \<Rightarrow> 's world" where
  "rw_WriteHeader code w =
     w\<lparr>writer := (writer w)\<lparr>rw_status := rw_status (writer w) @ [code]\<rparr>\<rparr>"

text \<open>
  A call either returns a value or panics. The functions supplied by the user may
  panic; the protocol adapters and their streams are taken not to.
\<close>

datatype 'a outcome = Return 'a | Panic

text \<open>
  The server's view of a stream, \<^verbatim>\<open>StreamingHandlerConn\<close>, and its extension by \<^verbatim>\<open>Close\<close>,
  \<^verbatim>\<open>handlerConnCloser\<close>. \<^verbatim>\<open>Receive\<close> and \<^verbatim>\<open>Send\<close> act on the world; the accessors return
  the descriptor, the peer and the stream's three header maps.
\<close>

record 's StreamingHandlerConn =
  hc_Spec :: Spec
  hc_Peer :: Peer
  hc_Receive :: "'s world \<Rightarrow> (goerror + message) \<times> 's world"
  hc_RequestHeader :: http_Header
  hc_Send :: "message \<Rightarrow> 's world \<Rightarrow> goerror option \<times> 's world"
  hc_ResponseHeader :: http_Header
  hc_ResponseTrailer :: http_Header

record 's handlerConnCloser = "'s StreamingHandlerConn" +
  Close :: "goerror option \<Rightarrow> 's world \<Rightarrow> goerror option \<times> 's world"

type_synonym 's StreamingHandlerFunc =
  "context_Context \<Rightarrow> 's handlerConnCloser \<Rightarrow> 's world \<Rightarrow> goerror option outcome \<times> 's world"

text \<open>
  The contract of a protocol adapter. \<^verbatim>\<open>SetTimeout\<close> returns the derived context,
  whether the cancel handle is non-nil, and the parse error if any. \<^verbatim>\<open>NewConn\<close> works
  on the response writer of the world and returns the stream, or nothing when it
  reports \<^verbatim>\<open>ok = false\<close>.
\<close>

record 's protocolHandler =
  ContentTypes :: "string set"
  SetTimeout :: "http_Request \<Rightarrow> context_Context \<times> bool \<times> goerror option"
  NewConn :: "http_Request \<Rightarrow> 's world \<Rightarrow> 's handlerConnCloser option \<times> 's world"

record 's Handler =
  h_spec :: Spec
  implementation :: "'s StreamingHandlerFunc"
  protocolHandlers :: "'s protocolHandler list"
  acceptPost :: string

text \<open>
  The loop over \<^verbatim>\<open>h.protocolHandlers\<close> that stops at the first adapter whose content
  types contain the canonical value; \<open>None\<close> is the \<^verbatim>\<open>protocolHandler\<close> variable left
  nil.
\<close>

fun select_protocolHandler ::
  "string \<Rightarrow> 's protocolHandler list \<Rightarrow> 's protocolHandler option" where
  "select_protocolHandler contentType [] = None"
| "select_protocolHandler contentType (handler # rest) =
     (if contentType \<in> ContentTypes handler then Some handler
      else select_protocolHandler contentType rest)"

text \<open>
  \<^verbatim>\<open>ServeHTTP\<close> returns how it left (by returning, or by the panic of the implementation
  passing through it), the calls it made to the adapter, the stream, the implementation
  and the cancel handle, in order, and the world it leaves. The deferred \<^verbatim>\<open>cancel\<close> runs
  last on every way out once it is registered. \<^verbatim>\<open>canonicalizeContentType\<close> is not
  among the sources and is a parameter.
\<close>

datatype exit = Returned | Panicked

datatype event =
    Call_SetTimeout http_Request
  | Call_NewConn http_Request
  | Call_implementation context_Context
  | Call_Close "goerror option"
  | Call_cancel

definition ServeHTTP ::
  "(string \<Rightarrow> string) \<Rightarrow> 's Handler \<Rightarrow> http_Request \<Rightarrow> 's world
     \<Rightarrow> exit \<times> event list \<times> 's world" where
  "ServeHTTP canonicalizeContentType h request w =
     (let isBidi = ((StreamType (h_spec h) AND StreamTypeBidi) = StreamTypeBidi) in
      if isBidi \<and> ProtoMajor request < 2 then
        (Returned, [], rw_WriteHeader StatusHTTPVersionNotSupported w)
      else if Method request \<noteq> MethodPost then
        (Returned, [],
         rw_WriteHeader StatusMethodNotAllowed (rw_Header_Set ''Allow'' MethodPost w))
      else
        (let contentType = canonicalizeContentType (header_Get (Header request) ''Content-Type'')
         in case select_protocolHandler contentType (protocolHandlers h) of
              None \<Rightarrow>
                (Returned, [],
                 rw_WriteHeader StatusUnsupportedMediaType
                   (rw_Header_Set ''Accept-Post'' (acceptPost h) w))
            | Some protocolHandler \<Rightarrow>
                (let request1 =
                       request\<lparr>Header := header_Set (Header request) ''Content-Type'' contentType\<rparr>;
                     (ctx0, cancel, timeoutErr) = SetTimeout protocolHandler request1;
                     ctx = (if timeoutErr \<noteq> None then Context request1 else ctx0);
                     request2 = request1\<lparr>Context := ctx\<rparr>;
                     (conn, w1) = NewConn protocolHandler request2 w;
                     called = [Call_SetTimeout request1, Call_NewConn request2];
                     (how, calls, w2) =
                       (case conn of
                          None \<Rightarrow> (Returned, called, w1)
                        | Some connCloser \<Rightarrow>
                            (case timeoutErr of
                               Some e \<Rightarrow>
                                 (Returned, called @ [Call_Close (Some e)],
                                  snd (Close connCloser (Some e) w1))
                             | None \<Rightarrow>
                                 (case implementation h ctx connCloser w1 of
                                    (Panic, w') \<Rightarrow>
                                      (Panicked, called @ [Call_implementation ctx], w')
                                  | (Return err, w') \<Rightarrow>
                                      (Returned,
                                       called @ [Call_implementation ctx, Call_Close err],
                                       snd (Close connCloser err w')))))
                 in (how, if cancel then calls @ [Call_cancel] else calls, w2))))"

text \<open>The arguments of the calls to \<^verbatim>\<open>Close\<close> in a sequence of calls, in order.\<close>

fun closes :: "event list \<Rightarrow> goerror option list" where
  "closes [] = []"
| "closes (Call_Close err # es) = err # closes es"
| "closes (Call_SetTimeout r # es) = closes es"
| "closes (Call_NewConn r # es) = closes es"
| "closes (Call_implementation c # es) = closes es"
| "closes (Call_cancel # es) = closes es"

fun implementation_calls :: "event list \<Rightarrow> context_Context list" where
  "implementation_calls [] = []"
| "implementation_calls (Call_implementation c # es) = c # implementation_calls es"
| "implementation_calls (Call_SetTimeout r # es) = implementation_calls es"
| "implementation_calls (Call_NewConn r # es) = implementation_calls es"
| "implementation_calls (Call_Close err # es) = implementation_calls es"
| "implementation_calls (Call_cancel # es) = implementation_calls es"

fun cancel_calls :: "event list \<Rightarrow> nat" where
  "cancel_calls [] = 0"
| "cancel_calls (Call_cancel # es) = Suc (cancel_calls es)"
| "cancel_calls (Call_SetTimeout r # es) = cancel_calls es"
| "cancel_calls (Call_NewConn r # es) = cancel_calls es"
| "cancel_calls (Call_implementation c # es) = cancel_calls es"
| "cancel_calls (Call_Close err # es) = cancel_calls es"

section \<open>Handler construction\<close>

text \<open>
  The part of \<^verbatim>\<open>handlerConfig\<close> that the constructors read. The codecs, the compression
  pools, the size limits and the buffer pool only travel on to the adapters'
  constructor, which is not among the sources. An option is a function on the
  configuration, as \<^verbatim>\<open>applyToHandler\<close> is.
\<close>

type_synonym AnyRequest = "Request option"

type_synonym 's UnaryFunc =
  "context_Context \<Rightarrow> AnyRequest \<Rightarrow> 's world
     \<Rightarrow> (Response option \<times> goerror option) outcome \<times> 's world"

record 's Interceptor =
  WrapUnary :: "'s UnaryFunc \<Rightarrow> 's UnaryFunc"

record 's handlerConfig =
  Interceptor :: "'s Interceptor option"
  cfg_Procedure :: string
  HandleGRPC :: bool
  HandleGRPCWeb :: bool

definition newHandlerConfig ::
  "string \<Rightarrow> ('s handlerConfig \<Rightarrow> 's handlerConfig) list \<Rightarrow> 's handlerConfig" where
  "newHandlerConfig procedure options =
     fold (\<lambda>opt config. opt config) options
       \<lparr>Interceptor = None, cfg_Procedure = extractProtoPath procedure,
        HandleGRPC = True, HandleGRPCWeb = True\<rparr>"

definition newSpec :: "'s handlerConfig \<Rightarrow> StreamType \<Rightarrow> Spec" where
  "newSpec c streamType =
     \<lparr>StreamType = streamType, Procedure = cfg_Procedure c, IsClient = False\<rparr>"

text \<open>
  \<^verbatim>\<open>newProtocolHandlers\<close>: the Connect protocol always, gRPC and gRPC-Web when enabled, in
  this order, each turned into its adapter by \<^verbatim>\<open>protocol.NewHandler\<close>. That constructor
  is not among the sources and is the parameter \<open>NewHandler\<close>.
\<close>

datatype protocol = protocolConnect | protocolGRPC bool

definition newProtocolHandlers ::
  "(protocol \<Rightarrow> Spec \<Rightarrow> 's protocolHandler) \<Rightarrow> 's handlerConfig \<Rightarrow> StreamType
     \<Rightarrow> 's protocolHandler list" where
  "newProtocolHandlers NewHandler c streamType =
     (let protocols =
            [protocolConnect]
            @ (if HandleGRPC c then [protocolGRPC False] else [])
            @ (if HandleGRPCWeb c then [protocolGRPC True] else [])
      in map (\<lambda>protocol. NewHandler protocol (newSpec c streamType)) protocols)"

text \<open>
  Modelled from the spec: \<^verbatim>\<open>sortedAcceptPostValue\<close>, which is not among the sources, lists
  all the content types of all the adapters in lexicographic order. How the list is
  written into one header value is not said; it is the parameter \<open>render\<close>.
\<close>

definition supported_types :: "'s protocolHandler list \<Rightarrow> string list" where
  "supported_types handlers = sorted_list_of_set (\<Union>p \<in> set handlers. ContentTypes p)"

definition sortedAcceptPostValue ::
  "(string list \<Rightarrow> string) \<Rightarrow> 's protocolHandler list \<Rightarrow> string" where
  "sortedAcceptPostValue render handlers = render (supported_types handlers)"

text \<open>
  Modelled from the spec: \<^verbatim>\<open>mergeHeaders(into, from)\<close>, which is not among the sources,
  appends the values of every key of \<open>from\<close> to the values \<open>into\<close> has for that key.
  Writing into the nil map panics.
\<close>

definition merge_maps :: "header_map \<Rightarrow> header_map \<Rightarrow> header_map" where
  "merge_maps into from =
     (\<lambda>key. case from key of
               None \<Rightarrow> into key
             | Some vals \<Rightarrow> Some ((case into key of None \<Rightarrow> [] | Some old \<Rightarrow> old) @ vals))"

definition mergeHeaders ::
  "http_Header \<Rightarrow> http_Header \<Rightarrow> 'a heap_scheme \<Rightarrow> 'a heap_scheme option" where
  "mergeHeaders into from h =
     (case from of
        None \<Rightarrow> Some h
      | Some b \<Rightarrow>
          (case objs h b of
             None \<Rightarrow> Some h
           | Some fm \<Rightarrow>
               if dom fm = {} then Some h
               else
                 (case into of
                    None \<Rightarrow> None
                  | Some a \<Rightarrow>
                      (case objs h a of
                         None \<Rightarrow> None
                       | Some im \<Rightarrow> Some (h\<lparr>objs := (objs h)(a \<mapsto> merge_maps im fm)\<rparr>)))))"

text \<open>
  The verb \<^verbatim>\<open>%T\<close> prints the dynamic type of the request: of a \<^verbatim>\<open>*Request[T]\<close>, or of
  the nil interface value.
\<close>

definition format_T :: "AnyRequest \<Rightarrow> string" where
  "format_T request =
     (case request of None \<Rightarrow> ''<nil>'' | Some r \<Rightarrow> ''*connect.Request['' @ req_T r @ '']'')"

text \<open>
  The closure \<^verbatim>\<open>untyped\<close> of \<^verbatim>\<open>NewUnaryHandler\<close> for the type argument \<open>Req\<close> and the user's
  function \<open>unary\<close>. The type assertion succeeds on a \<^verbatim>\<open>*Request[Req]\<close> only.
\<close>

definition untyped ::
  "string \<Rightarrow> (context_Context \<Rightarrow> Request \<Rightarrow> 's world
       \<Rightarrow> (Response option \<times> goerror option) outcome \<times> 's world)
     \<Rightarrow> 's UnaryFunc" where
  "untyped Req unary ctx request w =
     (case ctx_Err ctx of
        Some err \<Rightarrow> (Return (None, Some err), w)
      | None \<Rightarrow>
          (case request of
             None \<Rightarrow>
               (Return (None, Some (errorf CodeInternal
                  (''unexpected handler request type '' @ format_T request))), w)
           | Some typed \<Rightarrow>
               if req_T typed \<noteq> Req then
                 (Return (None, Some (errorf CodeInternal
                    (''unexpected handler request type '' @ format_T request))), w)
               else unary ctx typed w))"

text \<open>
  The closure \<^verbatim>\<open>implementation\<close> of \<^verbatim>\<open>NewUnaryHandler\<close> around the (possibly wrapped)
  untyped function. A nil response with a nil error panics at \<^verbatim>\<open>response.Header()\<close>.
\<close>

definition unary_implementation ::
  "string \<Rightarrow> 's UnaryFunc \<Rightarrow> context_Context \<Rightarrow> ('s, 'z) StreamingHandlerConn_scheme \<Rightarrow> 's world
     \<Rightarrow> goerror option outcome \<times> 's world" where
  "unary_implementation Req wrapped ctx conn w =
     (case hc_Receive conn w of
        (Inl err, w1) \<Rightarrow> (Return (Some err), w1)
      | (Inr msg, w1) \<Rightarrow>
          (let request =
                 \<lparr>req_T = Req, req_Msg = msg, req_spec = hc_Spec conn, req_peer = hc_Peer conn,
                  req_header = hc_RequestHeader conn\<rparr>
           in case wrapped ctx (Some request) w1 of
                (Panic, w2) \<Rightarrow> (Panic, w2)
              | (Return (response, Some err), w2) \<Rightarrow> (Return (Some err), w2)
              | (Return (None, None), w2) \<Rightarrow> (Panic, w2)
              | (Return (Some response, None), w2) \<Rightarrow>
                  (let (hdr, response1, w3) = Response_Header response w2 in
                   case mergeHeaders (hc_ResponseHeader conn) hdr w3 of
                     None \<Rightarrow> (Panic, w3)
                   | Some w4 \<Rightarrow>
                       (let (tr, response2, w5) = Response_Trailer response1 w4 in
                        case mergeHeaders (hc_ResponseTrailer conn) tr w5 of
                          None \<Rightarrow> (Panic, w5)
                        | Some w6 \<Rightarrow>
                            (case hc_Send conn (res_Msg response2) w6 of
                               (err, w7) \<Rightarrow> (Return err, w7))))))"

definition NewUnaryHandler ::
  "string \<Rightarrow> (protocol \<Rightarrow> Spec \<Rightarrow> 's protocolHandler) \<Rightarrow> (string list \<Rightarrow> string)
     \<Rightarrow> string
     \<Rightarrow> (context_Context \<Rightarrow> Request \<Rightarrow> 's world
           \<Rightarrow> (Response option \<times> goerror option) outcome \<times> 's world)
     \<Rightarrow> ('s handlerConfig \<Rightarrow> 's handlerConfig) list
     \<Rightarrow> 's Handler" where
  "NewUnaryHandler Req NewHandler render procedure unary options =
     (let config = newHandlerConfig procedure options;
          wrapped =
            (case Interceptor config of
               None \<Rightarrow> untyped Req unary
             | Some interceptor \<Rightarrow> WrapUnary interceptor (untyped Req unary));
          handlers = newProtocolHandlers NewHandler config StreamTypeUnary
      in \<lparr>h_spec = newSpec config StreamTypeUnary,
          implementation = unary_implementation Req wrapped,
          protocolHandlers = handlers,
          acceptPost = sortedAcceptPostValue render handlers\<rparr>)"

text \<open>The test \<^verbatim>\<open>isBidi\<close> of \<^verbatim>\<open>ServeHTTP\<close>, for stating what follows.\<close>

abbreviation is_bidi :: "'s Handler \<Rightarrow> bool" where
  "is_bidi h \<equiv> (StreamType (h_spec h) AND StreamTypeBidi) = StreamTypeBidi"

section \<open>Example collaborators\<close>

text \<open>
  Concrete contexts, streams, adapters, handlers and requests, on which the theorems
  below are evaluated. The state of the network is a counter.
\<close>

definition start_world :: "nat world" where
  "start_world =
     \<lparr>objs = Map.empty, next_addr = 0,
      writer = \<lparr>rw_Header = Map.empty, rw_status = []\<rparr>, net = 0\<rparr>"

text \<open>The heap before anything is allocated.\<close>

definition empty_heap :: heap where
  "empty_heap = \<lparr>objs = Map.empty, next_addr = 0\<rparr>"

text \<open>
  A connection over a script of what each \<^verbatim>\<open>Receive\<close> is to return: two messages; one
  message and then an end of stream wrapped in a structured error; one message and then
  another error.
\<close>

definition scripted_conn :: "(goerror + message) list StreamingClientConn" where
  "scripted_conn =
     \<lparr>Receive = (\<lambda>s. case s of [] \<Rightarrow> (Inl io_EOF, []) | x # xs \<Rightarrow> (x, xs)),
      ResponseHeader = (\<lambda>s. (Some 1, s)),
      ResponseTrailer = (\<lambda>s. (Some 2, s))\<rparr>"

definition background :: context_Context where
  "background = \<lparr>ctx_id = 0, ctx_Err = None\<rparr>"

definition derived :: context_Context where
  "derived = \<lparr>ctx_id = 1, ctx_Err = None\<rparr>"

definition cancelled :: context_Context where
  "cancelled = \<lparr>ctx_id = 2, ctx_Err = Some context_Canceled\<rparr>"

definition ping_conn :: "nat handlerConnCloser" where
  "ping_conn =
     \<lparr>hc_Spec = zero_Spec, hc_Peer = zero_Peer,
      hc_Receive = Pair (Inr ''ping''),
      hc_RequestHeader = None,
      hc_Send = (\<lambda>msg. Pair None),
      hc_ResponseHeader = None,
      hc_ResponseTrailer = None,
      Close = (\<lambda>err. Pair None)\<rparr>"

definition grpc_adapter :: "nat protocolHandler" where
  "grpc_adapter =
     \<lparr>ContentTypes = {''application/grpc'', ''application/grpc+proto''},
      SetTimeout = (\<lambda>r. (derived, True, None)),
      NewConn = (\<lambda>r. Pair (Some ping_conn))\<rparr>"

definition connect_adapter :: "nat protocolHandler" where
  "connect_adapter =
     \<lparr>ContentTypes = {''application/json'', ''application/proto''},
      SetTimeout = (\<lambda>r. (derived, True, Some (errorf CodeInvalidArgument ''bad timeout''))),
      NewConn = (\<lambda>r. Pair (Some ping_conn))\<rparr>"

definition example_handler :: "StreamType \<Rightarrow> nat StreamingHandlerFunc \<Rightarrow> nat Handler" where
  "example_handler streamType impl =
     \<lparr>h_spec = \<lparr>StreamType = streamType, Procedure = ''/acme.Foo/Bar'', IsClient = False\<rparr>,
      implementation = impl,
      protocolHandlers = [connect_adapter, grpc_adapter],
      acceptPost = ''application/grpc, application/grpc+proto, application/json, application/proto''\<rparr>"

definition succeeding :: "nat StreamingHandlerFunc" where
  "succeeding ctx conn = Pair (Return None)"

definition failing :: "nat StreamingHandlerFunc" where
  "failing ctx conn = Pair (Return (Some (errorf CodeUnavailable ''try later'')))"

definition panicking :: "nat StreamingHandlerFunc" where
  "panicking ctx conn = Pair Panic"

definition example_request :: "string \<Rightarrow> int \<Rightarrow> string \<Rightarrow> http_Request" where
  "example_request method major contentType =
     \<lparr>Method = method, ProtoMajor = major,
      Header = [''Content-Type'' \<mapsto> [contentType]], Context = background\<rparr>"

text \<open>
  An interceptor that counts its invocations in the state of the network and then calls
  the function it wraps; the option that configures an interceptor; a user function that
  answers with the message it was sent and leaves its mark on the state; and the two
  parameters of a constructed handler.
\<close>

definition counting_interceptor :: "nat Interceptor" where
  "counting_interceptor =
     \<lparr>WrapUnary = (\<lambda>next ctx request w. next ctx request (w\<lparr>net := Suc (net w)\<rparr>))\<rparr>"

definition WithInterceptor :: "'s Interceptor \<Rightarrow> 's handlerConfig \<Rightarrow> 's handlerConfig" where
  "WithInterceptor interceptor config = config\<lparr>Interceptor := Some interceptor\<rparr>"

definition echo_unary ::
  "context_Context \<Rightarrow> Request \<Rightarrow> nat world
     \<Rightarrow> (Response option \<times> goerror option) outcome \<times> nat world" where
  "echo_unary ctx r w =
     (Return (Some (NewResponse ''Res'' (req_Msg r)), None), w\<lparr>net := net w + 100\<rparr>)"

definition example_NewHandler :: "protocol \<Rightarrow> Spec \<Rightarrow> nat protocolHandler" where
  "example_NewHandler protocol s =
     (case protocol of protocolConnect \<Rightarrow> connect_adapter | protocolGRPC web \<Rightarrow> grpc_adapter)"

definition example_render :: "string list \<Rightarrow> string" where
  "example_render types = concat types"

section \<open>Facts about splitting\<close>

lemma strings_Split_nonempty: "strings_Split s \<noteq> []"
  by (induction s) (auto split: list.splits)

lemma strings_Split_no_slash: "CHR ''/'' \<notin> set s \<Longrightarrow> strings_Split s = [s]"
  by (induction s) auto

lemma strings_Split_snoc:
  "CHR ''/'' \<notin> set b \<Longrightarrow> strings_Split (p @ CHR ''/'' # b) = strings_Split p @ [b]"
proof (induction p)
  case Nil
  then show ?case by (simp add: strings_Split_no_slash)
next
  case (Cons c cs)
  then show ?case using strings_Split_nonempty [of cs] by (cases "strings_Split cs") auto
qed

lemma strings_Split_segments: "seg \<in> set (strings_Split s) \<Longrightarrow> CHR ''/'' \<notin> set seg"
proof (induction s arbitrary: seg)
  case Nil
  then show ?case by simp
next
  case (Cons c cs)
  obtain x xs where sp: "strings_Split cs = x # xs"
    using strings_Split_nonempty [of cs] by (cases "strings_Split cs") auto
  show ?case
  proof (cases "c = CHR ''/''")
    case True
    with Cons show ?thesis by auto
  next
    case False
    with Cons.prems sp have "seg = c # x \<or> seg \<in> set xs" by simp
    with Cons.IH sp False show ?thesis by auto
  qed
qed

lemma strings_Split_length: "length (strings_Split s) = Suc (count_list s (CHR ''/''))"
proof (induction s)
  case Nil
  then show ?case by simp
next
  case (Cons c cs)
  have "strings_Split cs \<noteq> []" by (rule strings_Split_nonempty)
  with Cons show ?case by (cases "strings_Split cs") auto
qed

lemma strings_Split_single: "length (strings_Split s) = 1 \<longleftrightarrow> CHR ''/'' \<notin> set s"
  by (simp add: strings_Split_length count_list_0_iff)

section \<open>What \<open>extractProtoPath\<close> returns, by the shape of its input\<close>

lemma extractProtoPath_no_slash:
  "CHR ''/'' \<notin> set s \<Longrightarrow> extractProtoPath s = CHR ''/'' # s"
  by (simp add: extractProtoPath_def strings_Split_no_slash)

lemma extractProtoPath_snoc:
  assumes "CHR ''/'' \<notin> set b"
  shows "extractProtoPath (p @ CHR ''/'' # b)
       = CHR ''/'' # last (strings_Split p) @ CHR ''/'' # b"
proof -
  have ne: "strings_Split p \<noteq> []" by (rule strings_Split_nonempty)
  have "strings_Split (p @ CHR ''/'' # b) = strings_Split p @ [b]"
    using assms by (rule strings_Split_snoc)
  then show ?thesis using ne
    by (simp add: extractProtoPath_def Let_def nth_append last_conv_nth)
qed

lemma extractProtoPath_two:
  assumes "CHR ''/'' \<notin> set a" "CHR ''/'' \<notin> set b"
  shows "extractProtoPath (a @ CHR ''/'' # b) = CHR ''/'' # a @ CHR ''/'' # b"
  using assms by (simp add: extractProtoPath_snoc strings_Split_no_slash)

lemma extractProtoPath_three:
  assumes "CHR ''/'' \<notin> set a" "CHR ''/'' \<notin> set b"
  shows "extractProtoPath (p @ CHR ''/'' # a @ CHR ''/'' # b) = CHR ''/'' # a @ CHR ''/'' # b"
proof -
  have "extractProtoPath ((p @ CHR ''/'' # a) @ CHR ''/'' # b)
      = CHR ''/'' # last (strings_Split (p @ CHR ''/'' # a)) @ CHR ''/'' # b"
    using assms(2) by (rule extractProtoPath_snoc)
  then show ?thesis using assms(1) by (simp add: strings_Split_snoc)
qed

lemma has_slash_decomp:
  assumes "CHR ''/'' \<in> set s"
  obtains p b where "s = p @ CHR ''/'' # b" "CHR ''/'' \<notin> set b"
  using assms split_list_last [of "CHR ''/''" s] by blast

lemma extractProtoPath_shape:
  assumes "CHR ''/'' \<in> set s"
  obtains a b where "extractProtoPath s = CHR ''/'' # a @ CHR ''/'' # b"
    "CHR ''/'' \<notin> set a" "CHR ''/'' \<notin> set b"
proof -
  from assms obtain p b where s: "s = p @ CHR ''/'' # b" and b: "CHR ''/'' \<notin> set b"
    by (rule has_slash_decomp)
  have "last (strings_Split p) \<in> set (strings_Split p)"
    using strings_Split_nonempty by simp
  then have a: "CHR ''/'' \<notin> set (last (strings_Split p))"
    by (rule strings_Split_segments)
  show ?thesis using that [OF _ a b] s b by (simp add: extractProtoPath_snoc)
qed

lemma extractProtoPath_twice_slash:
  assumes "CHR ''/'' \<in> set s"
  shows "extractProtoPath (extractProtoPath s) = extractProtoPath s"
proof -
  from assms obtain a b where e: "extractProtoPath s = CHR ''/'' # a @ CHR ''/'' # b"
    and a: "CHR ''/'' \<notin> set a" and b: "CHR ''/'' \<notin> set b"
    by (rule extractProtoPath_shape)
  have "extractProtoPath ([] @ CHR ''/'' # a @ CHR ''/'' # b) = CHR ''/'' # a @ CHR ''/'' # b"
    using a b by (rule extractProtoPath_three)
  with e show ?thesis by simp
qed

lemma extractProtoPath_twice_no_slash:
  assumes "CHR ''/'' \<notin> set s"
  shows "extractProtoPath (extractProtoPath s) = CHR ''/'' # CHR ''/'' # s"
proof -
  have "extractProtoPath ([] @ CHR ''/'' # s)
      = CHR ''/'' # last (strings_Split []) @ CHR ''/'' # s"
    using assms by (rule extractProtoPath_snoc)
  then show ?thesis using assms by (simp add: extractProtoPath_no_slash)
qed

lemma spec_trailing_nonempty_no_slash:
  assumes "CHR ''/'' \<notin> set s"
  shows "spec_trailing_nonempty s = CHR ''/'' # s"
  using assms by (simp add: spec_trailing_nonempty_def strings_Split_no_slash)

lemma spec_trailing_nonempty_three:
  assumes "CHR ''/'' \<notin> set a" "CHR ''/'' \<notin> set b" "a \<noteq> []" "b \<noteq> []"
  shows "spec_trailing_nonempty (p @ CHR ''/'' # a @ CHR ''/'' # b)
       = CHR ''/'' # a @ CHR ''/'' # b"
proof -
  have "strings_Split ((p @ CHR ''/'' # a) @ CHR ''/'' # b)
      = strings_Split (p @ CHR ''/'' # a) @ [b]"
    using assms(2) by (rule strings_Split_snoc)
  then have "strings_Split (p @ CHR ''/'' # a @ CHR ''/'' # b) = strings_Split p @ [a, b]"
    using assms(1) by (simp add: strings_Split_snoc)
  then show ?thesis using assms(3,4)
    by (simp add: spec_trailing_nonempty_def Let_def nth_append)
qed

lemma spec_trailing_nonempty_two:
  assumes "CHR ''/'' \<notin> set a" "CHR ''/'' \<notin> set b" "a \<noteq> []" "b \<noteq> []"
  shows "spec_trailing_nonempty (a @ CHR ''/'' # b) = CHR ''/'' # a @ CHR ''/'' # b"
proof -
  have "strings_Split (a @ CHR ''/'' # b) = [a, b]"
    using assms(1,2) by (simp add: strings_Split_snoc strings_Split_no_slash)
  then show ?thesis using assms(3,4)
    by (simp add: spec_trailing_nonempty_def Let_def)
qed

section \<open>Claims about procedure-path normalization\<close>

text \<open>
  C5, as stated, at the input \<open>Baz\<close>: the first application gives \<open>/Baz\<close>, which
  splits into an empty segment and \<open>Baz\<close>, so the second application gives
  \<open>//Baz\<close>. Idempotence fails at an input the claim itself lists.
\<close>

theorem C5_idempotence_counterexample:
  "extractProtoPath ''Baz'' = ''/Baz'' \<and>
   extractProtoPath (extractProtoPath ''Baz'') = ''//Baz'' \<and>
   extractProtoPath (extractProtoPath ''Baz'') \<noteq> extractProtoPath ''Baz''"
  by (simp add: extractProtoPath_def)

text \<open>
  C5, amended: \<open>extractProtoPath (extractProtoPath s) = extractProtoPath s\<close> holds exactly
  for the inputs \<open>s\<close> that contain a slash; for a slash-free \<open>s\<close> the second application
  returns \<open>s\<close> behind two slashes, and a third application changes nothing any more. The
  four listed values are the ones the code computes.
\<close>

theorem C5_idempotence_amended:
  "(extractProtoPath (extractProtoPath s) = extractProtoPath s \<longleftrightarrow> CHR ''/'' \<in> set s) \<and>
   (CHR ''/'' \<notin> set s \<longrightarrow> extractProtoPath (extractProtoPath s) = ''//'' @ s) \<and>
   extractProtoPath (extractProtoPath (extractProtoPath s))
     = extractProtoPath (extractProtoPath s) \<and>
   extractProtoPath ''/foo.Bar/Baz'' = ''/foo.Bar/Baz'' \<and>
   extractProtoPath ''http://host/foo.Bar/Baz'' = ''/foo.Bar/Baz'' \<and>
   extractProtoPath ''Baz'' = ''/Baz'' \<and>
   extractProtoPath [] = ''/''"
proof -
  have iff: "extractProtoPath (extractProtoPath s) = extractProtoPath s \<longleftrightarrow> CHR ''/'' \<in> set s"
  proof (cases "CHR ''/'' \<in> set s")
    case True
    then show ?thesis by (simp add: extractProtoPath_twice_slash)
  next
    case False
    then show ?thesis
      using extractProtoPath_twice_no_slash [of s] extractProtoPath_no_slash [of s] by simp
  qed
  have twice: "CHR ''/'' \<notin> set s \<longrightarrow> extractProtoPath (extractProtoPath s) = ''//'' @ s"
    by (simp add: extractProtoPath_twice_no_slash)
  have "CHR ''/'' \<in> set (extractProtoPath s)"
  proof (cases "CHR ''/'' \<in> set s")
    case True
    then obtain a b where "extractProtoPath s = CHR ''/'' # a @ CHR ''/'' # b"
      by (rule extractProtoPath_shape)
    then show ?thesis by simp
  next
    case False
    then show ?thesis by (simp add: extractProtoPath_no_slash)
  qed
  then have thrice: "extractProtoPath (extractProtoPath (extractProtoPath s))
      = extractProtoPath (extractProtoPath s)"
    by (rule extractProtoPath_twice_slash)
  have e1: "extractProtoPath ''/foo.Bar/Baz'' = ''/foo.Bar/Baz''"
    by (simp add: extractProtoPath_def)
  have e2: "extractProtoPath ''http://host/foo.Bar/Baz'' = ''/foo.Bar/Baz''"
    by (simp add: extractProtoPath_def)
  have e3: "extractProtoPath ''Baz'' = ''/Baz''"
    by (simp add: extractProtoPath_def)
  have e4: "extractProtoPath [] = ''/''"
    by (simp add: extractProtoPath_def)
  from iff twice thrice e1 e2 e3 e4 show ?thesis by blast
qed

theorem C5_idempotence_amended_witness:
  "CHR ''/'' \<in> set ''x/foo.Bar/Baz'' \<and>
   extractProtoPath (extractProtoPath ''x/foo.Bar/Baz'') = extractProtoPath ''x/foo.Bar/Baz'' \<and>
   CHR ''/'' \<notin> set ''Baz'' \<and>
   extractProtoPath (extractProtoPath ''Baz'') = ''//Baz''"
  using C5_idempotence_amended [of "''x/foo.Bar/Baz''"] C5_idempotence_amended [of "''Baz''"]
  by (simp add: extractProtoPath_def)

text \<open>
  C6, as stated, at the input \<open>/Baz\<close>: its only non-empty segment is \<open>Baz\<close>, so the
  claimed result is \<open>/Baz\<close>, but the code keeps the empty segment in front of it and
  returns \<open>//Baz\<close>.
\<close>

theorem C6_trailing_segments_counterexample:
  "extractProtoPath ''/Baz'' = ''//Baz'' \<and>
   spec_trailing_nonempty ''/Baz'' = ''/Baz'' \<and>
   extractProtoPath ''/Baz'' \<noteq> spec_trailing_nonempty ''/Baz''"
  by (simp add: extractProtoPath_def spec_trailing_nonempty_def)

text \<open>
  C6, amended: \<open>extractProtoPath\<close> returns the last two slash-delimited segments of its
  input, empty or not, each behind a slash; an input without a slash is returned behind
  one slash, so the empty input gives a single slash. Where the last two segments are
  both non-empty, and where there is no slash, this is the form the claim describes.
\<close>

theorem C6_trailing_segments_amended:
  "(CHR ''/'' \<notin> set s \<longrightarrow>
      extractProtoPath s = ''/'' @ s \<and> extractProtoPath s = spec_trailing_nonempty s) \<and>
   (CHR ''/'' \<notin> set a \<and> CHR ''/'' \<notin> set b \<longrightarrow>
      extractProtoPath (a @ ''/'' @ b) = ''/'' @ a @ ''/'' @ b \<and>
      extractProtoPath (p @ ''/'' @ a @ ''/'' @ b) = ''/'' @ a @ ''/'' @ b \<and>
      (a \<noteq> [] \<and> b \<noteq> [] \<longrightarrow>
         extractProtoPath (a @ ''/'' @ b) = spec_trailing_nonempty (a @ ''/'' @ b) \<and>
         extractProtoPath (p @ ''/'' @ a @ ''/'' @ b)
           = spec_trailing_nonempty (p @ ''/'' @ a @ ''/'' @ b))) \<and>
   extractProtoPath [] = ''/''"
proof -
  have one: "CHR ''/'' \<notin> set s \<longrightarrow>
      extractProtoPath s = ''/'' @ s \<and> extractProtoPath s = spec_trailing_nonempty s"
    by (simp add: extractProtoPath_no_slash spec_trailing_nonempty_no_slash)
  have two: "CHR ''/'' \<notin> set a \<and> CHR ''/'' \<notin> set b \<longrightarrow>
      extractProtoPath (a @ ''/'' @ b) = ''/'' @ a @ ''/'' @ b \<and>
      extractProtoPath (p @ ''/'' @ a @ ''/'' @ b) = ''/'' @ a @ ''/'' @ b"
    by (simp add: extractProtoPath_two extractProtoPath_three)
  have agree: "CHR ''/'' \<notin> set a \<and> CHR ''/'' \<notin> set b \<longrightarrow> a \<noteq> [] \<and> b \<noteq> [] \<longrightarrow>
      extractProtoPath (a @ ''/'' @ b) = spec_trailing_nonempty (a @ ''/'' @ b) \<and>
      extractProtoPath (p @ ''/'' @ a @ ''/'' @ b)
        = spec_trailing_nonempty (p @ ''/'' @ a @ ''/'' @ b)"
    by (simp add: extractProtoPath_two extractProtoPath_three
        spec_trailing_nonempty_two spec_trailing_nonempty_three)
  have empty: "extractProtoPath [] = ''/''"
    by (simp add: extractProtoPath_def)
  from one two agree empty show ?thesis by blast
qed

theorem C6_trailing_segments_amended_witness:
  "CHR ''/'' \<notin> set ''Baz'' \<and> extractProtoPath ''Baz'' = ''/Baz'' \<and>
   CHR ''/'' \<notin> set ''foo.Bar'' \<and> ''foo.Bar'' \<noteq> [] \<and> ''Baz'' \<noteq> [] \<and>
   extractProtoPath ''foo.Bar/Baz'' = ''/foo.Bar/Baz'' \<and>
   extractProtoPath ''http://host/foo.Bar/Baz'' = ''/foo.Bar/Baz'' \<and>
   extractProtoPath ''http://host/foo.Bar/Baz'' = spec_trailing_nonempty ''http://host/foo.Bar/Baz''"
  using C6_trailing_segments_amended [of "''Baz''" "''foo.Bar''" "''Baz''" "''http://host''"]
  by (simp add: extractProtoPath_def spec_trailing_nonempty_def)

section \<open>Claims about the client-side unary helper\<close>

lemma receiveUnaryResponse_first_error:
  "Receive conn s = (Inl err, s1) \<Longrightarrow> receiveUnaryResponse T conn s = (Inl err, s1)"
  by (simp add: receiveUnaryResponse_def)

text \<open>
  C7: after a successful first \<^verbatim>\<open>Receive\<close>, the second \<^verbatim>\<open>Receive\<close> decides the result.
  If it returns nil, the result is the error of code \<open>Unknown\<close> around the message
  \<open>unary stream has multiple messages\<close>; if it returns an error that wraps \<^verbatim>\<open>io.EOF\<close>, the
  result is the Response with the first message and the connection's response header
  and response trailer; any other error is returned wrapped with code \<open>Unknown\<close>.
\<close>

theorem C7_receiveUnaryResponse_second_receive:
  assumes "Receive conn s = (Inr msg, s1)"
  shows "(Receive conn s1 = (Inr second, s2) \<longrightarrow>
            receiveUnaryResponse T conn s
              = (Inl (NewError CodeUnknown (errors_New ''unary stream has multiple messages'')), s2)) \<and>
         (Receive conn s1 = (Inl err, s2) \<and> errors_Is_EOF err \<longrightarrow>
            (\<exists>r s4. receiveUnaryResponse T conn s = (Inr r, s4) \<and>
               res_Msg r = msg \<and>
               res_header r = fst (ResponseHeader conn s2) \<and>
               res_trailer r = fst (ResponseTrailer conn (snd (ResponseHeader conn s2))) \<and>
               s4 = snd (ResponseTrailer conn (snd (ResponseHeader conn s2))))) \<and>
         (Receive conn s1 = (Inl err, s2) \<and> \<not> errors_Is_EOF err \<longrightarrow>
            receiveUnaryResponse T conn s = (Inl (NewError CodeUnknown err), s2))"
  using assms
  by (simp add: receiveUnaryResponse_def split: prod.splits)

theorem C7_receiveUnaryResponse_second_receive_witness:
  "receiveUnaryResponse ''Res'' scripted_conn [Inr ''first'', Inr ''second'']
     = (Inl (NewError CodeUnknown (errors_New ''unary stream has multiple messages'')), []) \<and>
   (\<exists>r s4. receiveUnaryResponse ''Res'' scripted_conn
              [Inr ''first'', Inl (NewError CodeUnknown io_EOF)] = (Inr r, s4) \<and>
      res_Msg r = ''first'' \<and> res_header r = Some 1 \<and> res_trailer r = Some 2) \<and>
   receiveUnaryResponse ''Res'' scripted_conn [Inr ''first'', Inl (errors_New ''reset'')]
     = (Inl (NewError CodeUnknown (errors_New ''reset'')), [])"
proof -
  let ?multi = "[Inr ''first'', Inr ''second'']"
  let ?eof = "[Inr ''first'', Inl (NewError CodeUnknown io_EOF)]"
  let ?other = "[Inr ''first'', Inl (errors_New ''reset'')]"
  have first:
    "Receive scripted_conn ?multi = (Inr ''first'', [Inr ''second''])"
    "Receive scripted_conn ?eof = (Inr ''first'', [Inl (NewError CodeUnknown io_EOF)])"
    "Receive scripted_conn ?other = (Inr ''first'', [Inl (errors_New ''reset'')])"
    by (simp_all add: scripted_conn_def)
  have a: "Receive scripted_conn [Inr ''second''] = (Inr ''second'', [])"
    by (simp add: scripted_conn_def)
  have b: "Receive scripted_conn [Inl (NewError CodeUnknown io_EOF)]
             = (Inl (NewError CodeUnknown io_EOF), []) \<and> errors_Is_EOF (NewError CodeUnknown io_EOF)"
    by (simp add: scripted_conn_def)
  have c: "Receive scripted_conn [Inl (errors_New ''reset'')] = (Inl (errors_New ''reset''), [])
             \<and> \<not> errors_Is_EOF (errors_New ''reset'')"
    by (simp add: scripted_conn_def)
  have hs: "ResponseHeader scripted_conn [] = (Some 1, [])"
    "ResponseTrailer scripted_conn [] = (Some 2, [])"
    by (simp_all add: scripted_conn_def)
  have r1: "receiveUnaryResponse ''Res'' scripted_conn ?multi
     = (Inl (NewError CodeUnknown (errors_New ''unary stream has multiple messages'')), [])"
    using C7_receiveUnaryResponse_second_receive
        [OF first(1), where ?second = "''second''" and ?s2.0 = "[]" and T = "''Res''"] a
    by simp
  have r2: "\<exists>r s4. receiveUnaryResponse ''Res'' scripted_conn ?eof = (Inr r, s4) \<and>
      res_Msg r = ''first'' \<and> res_header r = Some 1 \<and> res_trailer r = Some 2"
    using C7_receiveUnaryResponse_second_receive
        [OF first(2), where err = "NewError CodeUnknown io_EOF" and ?s2.0 = "[]" and T = "''Res''"]
      b hs
    by auto
  have r3: "receiveUnaryResponse ''Res'' scripted_conn ?other
     = (Inl (NewError CodeUnknown (errors_New ''reset'')), [])"
    using C7_receiveUnaryResponse_second_receive
        [OF first(3), where err = "errors_New ''reset''" and ?s2.0 = "[]" and T = "''Res''"] c
    by simp
  from r1 r2 r3 show ?thesis by blast
qed

section \<open>Claims about the buffer pool\<close>

lemma Buffer_Reset_eq: "Buffer_Reset y = \<lparr>buf = [], cap = cap y\<rparr>"
  by (cases y) (simp add: Buffer_Reset_def)

lemma initial_le_max: "initialBufferSize \<le> maxRecycleBufferSize"
  by (simp add: initialBufferSize_def maxRecycleBufferSize_def push_bit_eq_mult)

lemma pool_holds_mono:
  "pool_holds Q b \<Longrightarrow> (\<And>x. Q x \<Longrightarrow> Q' x) \<Longrightarrow> pool_holds Q' b"
  unfolding pool_holds_def by blast

lemma pool_holds_new: "pool_holds Q newBufferPool"
  by (simp add: pool_holds_def newBufferPool_def)

lemma pool_holds_NewBuffer:
  assumes "pool_holds Q b"
  shows "pool_holds Q (snd (bytes_NewBuffer x b))"
    and "bufs (snd (bytes_NewBuffer x b)) (fst (bytes_NewBuffer x b)) = Some x"
proof -
  have fresh: "next_buf b \<notin> set (Pool b)"
    using assms unfolding pool_holds_def by fastforce
  show "pool_holds Q (snd (bytes_NewBuffer x b))"
    using assms fresh unfolding pool_holds_def bytes_NewBuffer_def
    by (auto simp: less_Suc_eq)
  show "bufs (snd (bytes_NewBuffer x b)) (fst (bytes_NewBuffer x b)) = Some x"
    by (simp add: bytes_NewBuffer_def)
qed

lemma pool_holds_Get:
  assumes "pool_holds Q b" and "Q Pool_New"
  shows "pool_holds Q (snd (bufferPool_Get choice b))"
    and "\<exists>x. bufs (snd (bufferPool_Get choice b)) (fst (bufferPool_Get choice b)) = Some x \<and> Q x"
proof -
  show "pool_holds Q (snd (bufferPool_Get choice b))"
  proof (cases "\<exists>i. choice = Some i \<and> i < length (Pool b)")
    case True
    then obtain i where i: "choice = Some i" "i < length (Pool b)" by blast
    have "set (take i (Pool b) @ drop (Suc i) (Pool b)) \<subseteq> set (Pool b)"
      by (auto dest: in_set_takeD in_set_dropD)
    then show ?thesis
      using assms(1) i unfolding pool_holds_def bufferPool_Get_def sync_Pool_Get_def
      by auto
  next
    case False
    then have "bufferPool_Get choice b = bytes_NewBuffer Pool_New b"
      by (auto simp: bufferPool_Get_def sync_Pool_Get_def split: option.splits)
    then show ?thesis
      using pool_holds_NewBuffer(1) [OF assms(1)] by simp
  qed
  show "\<exists>x. bufs (snd (bufferPool_Get choice b)) (fst (bufferPool_Get choice b)) = Some x \<and> Q x"
  proof (cases "\<exists>i. choice = Some i \<and> i < length (Pool b)")
    case True
    then obtain i where i: "choice = Some i" "i < length (Pool b)" by blast
    then have "Pool b ! i \<in> set (Pool b)" by simp
    then show ?thesis
      using assms(1) i unfolding pool_holds_def bufferPool_Get_def sync_Pool_Get_def
      by auto
  next
    case False
    then have "bufferPool_Get choice b = bytes_NewBuffer Pool_New b"
      by (auto simp: bufferPool_Get_def sync_Pool_Get_def split: option.splits)
    then show ?thesis
      using pool_holds_NewBuffer(2) [OF assms(1)] assms(2) by simp
  qed
qed

lemma pool_holds_Put:
  assumes "pool_holds Q b" and "bufs b a = Some x" and "bufferPool_Put a b = Some b'"
    and "cap x \<le> maxRecycleBufferSize \<Longrightarrow> Q (Buffer_Reset x)"
  shows "pool_holds Q b'"
proof (cases "cap x > maxRecycleBufferSize")
  case True
  then have "b' = b" using assms(2,3) by (simp add: bufferPool_Put_def)
  then show ?thesis using assms(1) by simp
next
  case False
  then have b': "b' = sync_Pool_Put a (b\<lparr>bufs := (bufs b)(a \<mapsto> Buffer_Reset x)\<rparr>)"
    using assms(2,3) by (simp add: bufferPool_Put_def)
  have q: "Q (Buffer_Reset x)" using False assms(4) by simp
  show ?thesis
    using assms(1,2) q unfolding b' pool_holds_def sync_Pool_Put_def
    by auto
qed

lemma pool_holds_Change:
  assumes "pool_holds Q b" and "bufs b a = Some old" and "a \<notin> set (Pool b)"
  shows "pool_holds Q (b\<lparr>bufs := (bufs b)(a \<mapsto> x)\<rparr>)"
  using assms unfolding pool_holds_def by auto

lemma recycled_new: "recycled rel Pool_New"
  using initial_le_max by (simp add: recycled_def Pool_New_def)

lemma recycled_more: "recycled rel x \<Longrightarrow> recycled (y # rel) x"
  unfolding recycled_def by auto

lemma recycled_reset: "cap y \<le> maxRecycleBufferSize \<Longrightarrow> recycled (y # rel) (Buffer_Reset y)"
  unfolding recycled_def by (auto simp: Buffer_Reset_eq)

lemma pool_run_recycled:
  assumes "pool_holds (recycled rel) b" and "hands_off ops b"
    and "(x, r) \<in> set (pool_run ops b rel)"
  shows "recycled r x"
  using assms
proof (induction ops arbitrary: b rel)
  case Nil
  then show ?case by simp
next
  case (Cons operation ops)
  show ?case
  proof (cases operation)
    case (Get choice)
    obtain a b' where g: "bufferPool_Get choice b = (a, b')"
      by (cases "bufferPool_Get choice b") auto
    have holds: "pool_holds (recycled rel) b'"
      using pool_holds_Get(1) [OF Cons.prems(1) recycled_new, of choice] g by simp
    obtain y where y: "bufs b' a = Some y" "recycled rel y"
      using pool_holds_Get(2) [OF Cons.prems(1) recycled_new, of choice] g by auto
    have off: "hands_off ops b'"
      using Cons.prems(2) Get g by simp
    have "(x, r) = (y, rel) \<or> (x, r) \<in> set (pool_run ops b' rel)"
      using Cons.prems(3) Get g y by simp
    then show ?thesis
      using y(2) Cons.IH [OF holds off] by auto
  next
    case (Put a)
    show ?thesis
    proof (cases "bufs b a")
      case None
      then show ?thesis using Cons.prems(3) Put by simp
    next
      case (Some y)
      then obtain b' where p: "bufferPool_Put a b = Some b'"
        by (cases "cap y > maxRecycleBufferSize") (auto simp: bufferPool_Put_def)
      have before: "pool_holds (recycled (y # rel)) b"
        using Cons.prems(1) recycled_more by (rule pool_holds_mono)
      have holds: "pool_holds (recycled (y # rel)) b'"
        using before Some p recycled_reset by (rule pool_holds_Put)
      have off: "hands_off ops b'"
        using Cons.prems(2) Put p by simp
      have "(x, r) \<in> set (pool_run ops b' (y # rel))"
        using Cons.prems(3) Put Some p by simp
      then show ?thesis
        using Cons.IH [OF holds off] by blast
    qed
  next
    case (Make y)
    have holds: "pool_holds (recycled rel) (snd (bytes_NewBuffer y b))"
      using Cons.prems(1) by (rule pool_holds_NewBuffer(1))
    have off: "hands_off ops (snd (bytes_NewBuffer y b))"
      using Cons.prems(2) Make by simp
    have "(x, r) \<in> set (pool_run ops (snd (bytes_NewBuffer y b)) rel)"
      using Cons.prems(3) Make by simp
    then show ?thesis
      using Cons.IH [OF holds off] by blast
  next
    case (Change a y)
    show ?thesis
    proof (cases "bufs b a")
      case None
      then show ?thesis using Cons.prems(3) Change by simp
    next
      case (Some old)
      have out: "a \<notin> set (Pool b)"
        using Cons.prems(2) Change by simp
      have holds: "pool_holds (recycled rel) (b\<lparr>bufs := (bufs b)(a \<mapsto> y)\<rparr>)"
        using Cons.prems(1) Some out by (rule pool_holds_Change)
      have off: "hands_off ops (b\<lparr>bufs := (bufs b)(a \<mapsto> y)\<rparr>)"
        using Cons.prems(2) Change Some by simp
      have "(x, r) \<in> set (pool_run ops (b\<lparr>bufs := (bufs b)(a \<mapsto> y)\<rparr>) rel)"
        using Cons.prems(3) Change Some by simp
      then show ?thesis
        using Cons.IH [OF holds off] by blast
    qed
  qed
qed

lemma bufferPool_Get_not_held:
  assumes "buffer \<notin> set (Pool b)" and "buffer < next_buf b"
  shows "fst (bufferPool_Get choice b) \<noteq> buffer"
proof (cases "\<exists>i. choice = Some i \<and> i < length (Pool b)")
  case True
  then obtain i where i: "choice = Some i" "i < length (Pool b)" by blast
  then have "fst (bufferPool_Get choice b) \<in> set (Pool b)"
    by (simp add: bufferPool_Get_def sync_Pool_Get_def)
  with assms(1) show ?thesis by auto
next
  case False
  then have "fst (bufferPool_Get choice b) = next_buf b"
    by (auto simp: bufferPool_Get_def sync_Pool_Get_def bytes_NewBuffer_def split: option.splits)
  with assms(2) show ?thesis by simp
qed

text \<open>
  C9, as stated, in two runs on a new pool. A caller makes a buffer of capacity 16 and
  releases it: it is below the recycling threshold, so it is reset and kept, and the
  next acquisition hands it out with capacity 16, below the initial 512. A caller
  acquires a buffer, releases it and then writes to it through the pointer it still
  holds: the next acquisition hands out that buffer with the byte in it.
\<close>

theorem C9_buffer_pool_counterexample:
  "pool_run [Make \<lparr>buf = [1], cap = 16\<rparr>, Put 0, Get (Some 0)] newBufferPool []
     = [(\<lparr>buf = [], cap = 16\<rparr>, [\<lparr>buf = [1], cap = 16\<rparr>])] \<and>
   \<not> initialBufferSize \<le> cap \<lparr>buf = [], cap = 16\<rparr> \<and>
   pool_run [Get None, Put 0, Change 0 \<lparr>buf = [1], cap = 512\<rparr>, Get (Some 0)] newBufferPool []
     = [(\<lparr>buf = [], cap = 512\<rparr>, []),
        (\<lparr>buf = [1], cap = 512\<rparr>, [\<lparr>buf = [], cap = 512\<rparr>])] \<and>
   buf \<lparr>buf = [1], cap = 512\<rparr> \<noteq> []"
  by (simp add: bufferPool_Get_def sync_Pool_Get_def bufferPool_Put_def sync_Pool_Put_def
      bytes_NewBuffer_def Buffer_Reset_def newBufferPool_def Pool_New_def
      initialBufferSize_def maxRecycleBufferSize_def push_bit_eq_mult)

text \<open>
  C9, amended: releasing a buffer whose capacity exceeds 8 MiB leaves the pool and the
  buffer as they were: the buffer is not added, so unless the pool held it already the
  next acquisition does not return it (a newly made buffer is never an existing one).
  Releasing a buffer of capacity at most 8 MiB resets
  its contents in place, with its capacity unchanged, and adds it to the pool. For a
  caller that does not change a buffer while the pool holds it, whatever steps it runs
  on a new pool, every acquired buffer has empty contents and a capacity of at most
  8 MiB, and it is either a new buffer of capacity 512 or a buffer released before that
  acquisition, reset; its capacity is at least 512 if every buffer released before that
  acquisition had at least that capacity when it was released.
\<close>

theorem C9_buffer_pool_amended:
  "(bufs b buffer = Some y \<and> cap y > maxRecycleBufferSize \<longrightarrow>
      bufferPool_Put buffer b = Some b \<and>
      (buffer \<notin> set (Pool b) \<and> buffer < next_buf b \<longrightarrow>
         fst (bufferPool_Get choice b) \<noteq> buffer)) \<and>
   (bufs b buffer = Some y \<and> cap y \<le> maxRecycleBufferSize \<longrightarrow>
      bufferPool_Put buffer b =
        Some (b\<lparr>bufs := (bufs b)(buffer \<mapsto> \<lparr>buf = [], cap = cap y\<rparr>),
                Pool := buffer # Pool b\<rparr>)) \<and>
   (hands_off ops newBufferPool \<and> (x, rel) \<in> set (pool_run ops newBufferPool []) \<longrightarrow>
      buf x = [] \<and> cap x \<le> maxRecycleBufferSize \<and>
      (x = \<lparr>buf = [], cap = initialBufferSize\<rparr> \<or>
       (\<exists>z \<in> set rel. x = \<lparr>buf = [], cap = cap z\<rparr>)) \<and>
      ((\<forall>z \<in> set rel. initialBufferSize \<le> cap z) \<longrightarrow> initialBufferSize \<le> cap x)) \<and>
   maxRecycleBufferSize = 8 * 1024 * 1024 \<and> initialBufferSize = 512"
proof -
  have big: "bufs b buffer = Some y \<and> cap y > maxRecycleBufferSize \<longrightarrow>
      bufferPool_Put buffer b = Some b \<and>
      (buffer \<notin> set (Pool b) \<and> buffer < next_buf b \<longrightarrow>
         fst (bufferPool_Get choice b) \<noteq> buffer)"
    using bufferPool_Get_not_held [of buffer b choice] by (auto simp: bufferPool_Put_def)
  have small: "bufs b buffer = Some y \<and> cap y \<le> maxRecycleBufferSize \<longrightarrow>
      bufferPool_Put buffer b =
        Some (b\<lparr>bufs := (bufs b)(buffer \<mapsto> \<lparr>buf = [], cap = cap y\<rparr>),
                Pool := buffer # Pool b\<rparr>)"
    by (auto simp: bufferPool_Put_def sync_Pool_Put_def Buffer_Reset_eq)
  have acquired: "hands_off ops newBufferPool \<and> (x, rel) \<in> set (pool_run ops newBufferPool [])
      \<longrightarrow> buf x = [] \<and> cap x \<le> maxRecycleBufferSize \<and>
      (x = \<lparr>buf = [], cap = initialBufferSize\<rparr> \<or>
       (\<exists>z \<in> set rel. x = \<lparr>buf = [], cap = cap z\<rparr>)) \<and>
      ((\<forall>z \<in> set rel. initialBufferSize \<le> cap z) \<longrightarrow> initialBufferSize \<le> cap x)"
  proof
    assume a: "hands_off ops newBufferPool \<and> (x, rel) \<in> set (pool_run ops newBufferPool [])"
    have "pool_holds (recycled []) newBufferPool"
      by (rule pool_holds_new)
    then have "recycled rel x"
      using a pool_run_recycled [of "[]" newBufferPool ops x rel] by blast
    then show "buf x = [] \<and> cap x \<le> maxRecycleBufferSize \<and>
      (x = \<lparr>buf = [], cap = initialBufferSize\<rparr> \<or>
       (\<exists>z \<in> set rel. x = \<lparr>buf = [], cap = cap z\<rparr>)) \<and>
      ((\<forall>z \<in> set rel. initialBufferSize \<le> cap z) \<longrightarrow> initialBufferSize \<le> cap x)"
      unfolding recycled_def .
  qed
  have numbers: "maxRecycleBufferSize = 8 * 1024 * 1024 \<and> initialBufferSize = 512"
    by (simp add: maxRecycleBufferSize_def initialBufferSize_def push_bit_eq_mult)
  from big small acquired numbers show ?thesis by blast
qed

theorem C9_buffer_pool_amended_witness:
  "bufferPool_Put 0 (snd (bytes_NewBuffer \<lparr>buf = [7], cap = 9000000\<rparr> newBufferPool))
     = Some (snd (bytes_NewBuffer \<lparr>buf = [7], cap = 9000000\<rparr> newBufferPool)) \<and>
   fst (bufferPool_Get (Some 0) (snd (bytes_NewBuffer \<lparr>buf = [7], cap = 9000000\<rparr> newBufferPool)))
     \<noteq> 0 \<and>
   bufferPool_Put 0 (snd (bytes_NewBuffer \<lparr>buf = [7], cap = 1024\<rparr> newBufferPool))
     = Some \<lparr>bufs = [0 \<mapsto> \<lparr>buf = [], cap = 1024\<rparr>], next_buf = 1, Pool = [0]\<rparr> \<and>
   hands_off [Make \<lparr>buf = [7], cap = 1024\<rparr>, Put 0, Get (Some 0)] newBufferPool \<and>
   pool_run [Make \<lparr>buf = [7], cap = 1024\<rparr>, Put 0, Get (Some 0)] newBufferPool []
     = [(\<lparr>buf = [], cap = 1024\<rparr>, [\<lparr>buf = [7], cap = 1024\<rparr>])] \<and>
   initialBufferSize \<le> cap \<lparr>buf = [], cap = 1024\<rparr>"
proof -
  let ?big = "snd (bytes_NewBuffer \<lparr>buf = [7], cap = 9000000\<rparr> newBufferPool)"
  let ?small = "snd (bytes_NewBuffer \<lparr>buf = [7], cap = 1024\<rparr> newBufferPool)"
  let ?ops = "[Make \<lparr>buf = [7], cap = 1024\<rparr>, Put 0, Get (Some 0)]"
  have big: "bufs ?big 0 = Some \<lparr>buf = [7], cap = 9000000\<rparr> \<and>
      cap \<lparr>buf = [7], cap = 9000000\<rparr> > maxRecycleBufferSize"
    by (simp add: bytes_NewBuffer_def newBufferPool_def maxRecycleBufferSize_def push_bit_eq_mult)
  have out: "0 \<notin> set (Pool ?big) \<and> 0 < next_buf ?big"
    by (simp add: bytes_NewBuffer_def newBufferPool_def)
  have small: "bufs ?small 0 = Some \<lparr>buf = [7], cap = 1024\<rparr> \<and>
      cap \<lparr>buf = [7], cap = 1024\<rparr> \<le> maxRecycleBufferSize"
    by (simp add: bytes_NewBuffer_def newBufferPool_def maxRecycleBufferSize_def push_bit_eq_mult)
  have state: "?small\<lparr>bufs := (bufs ?small)(0 \<mapsto> \<lparr>buf = [], cap = cap \<lparr>buf = [7], cap = 1024\<rparr>\<rparr>),
      Pool := 0 # Pool ?small\<rparr>
      = \<lparr>bufs = [0 \<mapsto> \<lparr>buf = [], cap = 1024\<rparr>], next_buf = 1, Pool = [0]\<rparr>"
    by (simp add: bytes_NewBuffer_def newBufferPool_def)
  have off: "hands_off ?ops newBufferPool"
    by (simp add: bufferPool_Get_def sync_Pool_Get_def bufferPool_Put_def sync_Pool_Put_def
        bytes_NewBuffer_def Buffer_Reset_def newBufferPool_def maxRecycleBufferSize_def
        push_bit_eq_mult)
  have run: "pool_run ?ops newBufferPool []
      = [(\<lparr>buf = [], cap = 1024\<rparr>, [\<lparr>buf = [7], cap = 1024\<rparr>])]"
    by (simp add: bufferPool_Get_def sync_Pool_Get_def bufferPool_Put_def sync_Pool_Put_def
        bytes_NewBuffer_def Buffer_Reset_def newBufferPool_def maxRecycleBufferSize_def
        push_bit_eq_mult)
  have rel: "\<forall>z \<in> set [\<lparr>buf = [7], cap = 1024\<rparr>]. initialBufferSize \<le> cap z"
    by (simp add: initialBufferSize_def)
  note on_big = C9_buffer_pool_amended
    [where b = "?big" and buffer = 0 and y = "\<lparr>buf = [7], cap = 9000000\<rparr>"
       and choice = "Some 0"]
  note on_small = C9_buffer_pool_amended
    [where b = "?small" and buffer = 0 and y = "\<lparr>buf = [7], cap = 1024\<rparr>"
       and ops = "?ops" and x = "\<lparr>buf = [], cap = 1024\<rparr>"
       and rel = "[\<lparr>buf = [7], cap = 1024\<rparr>]"]
  have a: "bufferPool_Put 0 ?big = Some ?big \<and> fst (bufferPool_Get (Some 0) ?big) \<noteq> 0"
    using on_big [THEN conjunct1] big out by blast
  have b: "bufferPool_Put 0 ?small
      = Some \<lparr>bufs = [0 \<mapsto> \<lparr>buf = [], cap = 1024\<rparr>], next_buf = 1, Pool = [0]\<rparr>"
    using on_small [THEN conjunct2, THEN conjunct1] small state by simp
  have c: "initialBufferSize \<le> cap \<lparr>buf = [], cap = 1024\<rparr>"
    using on_small [THEN conjunct2, THEN conjunct2, THEN conjunct1] off run rel by simp
  from a b off run c show ?thesis by blast
qed

section \<open>Claims about the envelopes' header accessors\<close>

lemma Request_Header_nil:
  "req_header r = None \<Longrightarrow>
     Request_Header r h =
       (Some (next_addr h), r\<lparr>req_header := Some (next_addr h)\<rparr>,
        h\<lparr>objs := (objs h)(next_addr h \<mapsto> Map.empty), next_addr := Suc (next_addr h)\<rparr>)"
  by (simp add: Request_Header_def make_Header_def)

lemma Request_Header_set:
  "req_header r \<noteq> None \<Longrightarrow> Request_Header r h = (req_header r, r, h)"
  by (auto simp: Request_Header_def)

lemma Request_Header_result:
  assumes "Request_Header r h = (m, r', h')"
  shows "m \<noteq> None \<and> req_header r' = m"
  using assms by (cases "req_header r = None") (auto simp: Request_Header_nil Request_Header_set)

lemma Response_Header_nil:
  "res_header r = None \<Longrightarrow>
     Response_Header r h =
       (Some (next_addr h), r\<lparr>res_header := Some (next_addr h)\<rparr>,
        h\<lparr>objs := (objs h)(next_addr h \<mapsto> Map.empty), next_addr := Suc (next_addr h)\<rparr>)"
  by (simp add: Response_Header_def make_Header_def)

lemma Response_Header_set:
  "res_header r \<noteq> None \<Longrightarrow> Response_Header r h = (res_header r, r, h)"
  by (auto simp: Response_Header_def)

lemma Response_Header_result:
  assumes "Response_Header r h = (m, r', h')"
  shows "m \<noteq> None \<and> res_header r' = m"
  using assms by (cases "res_header r = None") (auto simp: Response_Header_nil Response_Header_set)

lemma Response_Trailer_nil:
  "res_trailer r = None \<Longrightarrow>
     Response_Trailer r h =
       (Some (next_addr h), r\<lparr>res_trailer := Some (next_addr h)\<rparr>,
        h\<lparr>objs := (objs h)(next_addr h \<mapsto> Map.empty), next_addr := Suc (next_addr h)\<rparr>)"
  by (simp add: Response_Trailer_def make_Header_def)

lemma Response_Trailer_set:
  "res_trailer r \<noteq> None \<Longrightarrow> Response_Trailer r h = (res_trailer r, r, h)"
  by (auto simp: Response_Trailer_def)

lemma Response_Trailer_result:
  assumes "Response_Trailer r h = (m, r', h')"
  shows "m \<noteq> None \<and> res_trailer r' = m"
  using assms by (cases "res_trailer r = None") (auto simp: Response_Trailer_nil Response_Trailer_set)

lemma Header_Set_visible:
  "Header_Set m key v h = Some h' \<Longrightarrow> Header_Values h' m key = [v]"
  by (auto simp: Header_Set_def Header_Values_def split: option.splits)

lemma Header_Set_fresh:
  "\<exists>h'. Header_Set (Some (next_addr h)) key v
           (h\<lparr>objs := (objs h)(next_addr h \<mapsto> Map.empty), next_addr := Suc (next_addr h)\<rparr>)
         = Some h'"
  by (simp add: Header_Set_def)

text \<open>
  C10: the three accessors never return the nil map. Called on an envelope whose field
  is nil (as \<^verbatim>\<open>NewRequest\<close> and \<^verbatim>\<open>NewResponse\<close> leave it), the accessor makes an empty map
  at a new address, stores it in the field and returns it, and a write through it
  succeeds. Every later call on the envelope returns that same map and changes neither
  the envelope nor the heap, whatever was written to the heap in between; so a value
  set through the returned map is what a later call's map holds.
\<close>

theorem C10_header_accessors:
  "fst (Request_Header rq h) \<noteq> None \<and>
   fst (Response_Header rs h) \<noteq> None \<and>
   fst (Response_Trailer rs h) \<noteq> None \<and>
   req_header (NewRequest T msg) = None \<and>
   res_header (NewResponse T msg) = None \<and> res_trailer (NewResponse T msg) = None \<and>
   (req_header rq = None \<longrightarrow>
      fst (Request_Header rq h) = Some (next_addr h) \<and>
      objs (snd (snd (Request_Header rq h))) (next_addr h) = Some Map.empty \<and>
      (\<exists>h'. Header_Set (fst (Request_Header rq h)) key v (snd (snd (Request_Header rq h)))
               = Some h')) \<and>
   (res_header rs = None \<longrightarrow>
      fst (Response_Header rs h) = Some (next_addr h) \<and>
      objs (snd (snd (Response_Header rs h))) (next_addr h) = Some Map.empty \<and>
      (\<exists>h'. Header_Set (fst (Response_Header rs h)) key v (snd (snd (Response_Header rs h)))
               = Some h')) \<and>
   (res_trailer rs = None \<longrightarrow>
      fst (Response_Trailer rs h) = Some (next_addr h) \<and>
      objs (snd (snd (Response_Trailer rs h))) (next_addr h) = Some Map.empty \<and>
      (\<exists>h'. Header_Set (fst (Response_Trailer rs h)) key v (snd (snd (Response_Trailer rs h)))
               = Some h')) \<and>
   (Request_Header rq h = (m, rq', h1) \<longrightarrow>
      Request_Header rq' h2 = (m, rq', h2) \<and>
      (Header_Set m key v h1 = Some h2 \<longrightarrow>
         Header_Values h2 (fst (Request_Header rq' h2)) key = [v])) \<and>
   (Response_Header rs h = (m, rs', h1) \<longrightarrow>
      Response_Header rs' h2 = (m, rs', h2) \<and>
      (Header_Set m key v h1 = Some h2 \<longrightarrow>
         Header_Values h2 (fst (Response_Header rs' h2)) key = [v])) \<and>
   (Response_Trailer rs h = (m, rs', h1) \<longrightarrow>
      Response_Trailer rs' h2 = (m, rs', h2) \<and>
      (Header_Set m key v h1 = Some h2 \<longrightarrow>
         Header_Values h2 (fst (Response_Trailer rs' h2)) key = [v]))"
proof -
  have never_nil:
    "fst (Request_Header rq h) \<noteq> None"
    "fst (Response_Header rs h) \<noteq> None"
    "fst (Response_Trailer rs h) \<noteq> None"
    using Request_Header_result [of rq h] Response_Header_result [of rs h]
      Response_Trailer_result [of rs h]
    by (metis prod.collapse)+
  have constructed:
    "req_header (NewRequest T msg) = None"
    "res_header (NewResponse T msg) = None" "res_trailer (NewResponse T msg) = None"
    by (simp_all add: NewRequest_def NewResponse_def)
  have first_rq: "req_header rq = None \<longrightarrow>
      fst (Request_Header rq h) = Some (next_addr h) \<and>
      objs (snd (snd (Request_Header rq h))) (next_addr h) = Some Map.empty \<and>
      (\<exists>h'. Header_Set (fst (Request_Header rq h)) key v (snd (snd (Request_Header rq h)))
               = Some h')"
    using Header_Set_fresh [of h key v] by (simp add: Request_Header_nil)
  have first_rs: "res_header rs = None \<longrightarrow>
      fst (Response_Header rs h) = Some (next_addr h) \<and>
      objs (snd (snd (Response_Header rs h))) (next_addr h) = Some Map.empty \<and>
      (\<exists>h'. Header_Set (fst (Response_Header rs h)) key v (snd (snd (Response_Header rs h)))
               = Some h')"
    using Header_Set_fresh [of h key v] by (simp add: Response_Header_nil)
  have first_tr: "res_trailer rs = None \<longrightarrow>
      fst (Response_Trailer rs h) = Some (next_addr h) \<and>
      objs (snd (snd (Response_Trailer rs h))) (next_addr h) = Some Map.empty \<and>
      (\<exists>h'. Header_Set (fst (Response_Trailer rs h)) key v (snd (snd (Response_Trailer rs h)))
               = Some h')"
    using Header_Set_fresh [of h key v] by (simp add: Response_Trailer_nil)
  have later_rq: "Request_Header rq h = (m, rq', h1) \<longrightarrow>
      Request_Header rq' h2 = (m, rq', h2) \<and>
      (Header_Set m key v h1 = Some h2 \<longrightarrow>
         Header_Values h2 (fst (Request_Header rq' h2)) key = [v])"
  proof
    assume "Request_Header rq h = (m, rq', h1)"
    then have "m \<noteq> None \<and> req_header rq' = m" by (rule Request_Header_result)
    then have "Request_Header rq' h2 = (m, rq', h2)" by (simp add: Request_Header_set)
    then show "Request_Header rq' h2 = (m, rq', h2) \<and>
      (Header_Set m key v h1 = Some h2 \<longrightarrow>
         Header_Values h2 (fst (Request_Header rq' h2)) key = [v])"
      by (simp add: Header_Set_visible)
  qed
  have later_rs: "Response_Header rs h = (m, rs', h1) \<longrightarrow>
      Response_Header rs' h2 = (m, rs', h2) \<and>
      (Header_Set m key v h1 = Some h2 \<longrightarrow>
         Header_Values h2 (fst (Response_Header rs' h2)) key = [v])"
  proof
    assume "Response_Header rs h = (m, rs', h1)"
    then have "m \<noteq> None \<and> res_header rs' = m" by (rule Response_Header_result)
    then have "Response_Header rs' h2 = (m, rs', h2)" by (simp add: Response_Header_set)
    then show "Response_Header rs' h2 = (m, rs', h2) \<and>
      (Header_Set m key v h1 = Some h2 \<longrightarrow>
         Header_Values h2 (fst (Response_Header rs' h2)) key = [v])"
      by (simp add: Header_Set_visible)
  qed
  have later_tr: "Response_Trailer rs h = (m, rs', h1) \<longrightarrow>
      Response_Trailer rs' h2 = (m, rs', h2) \<and>
      (Header_Set m key v h1 = Some h2 \<longrightarrow>
         Header_Values h2 (fst (Response_Trailer rs' h2)) key = [v])"
  proof
    assume "Response_Trailer rs h = (m, rs', h1)"
    then have "m \<noteq> None \<and> res_trailer rs' = m" by (rule Response_Trailer_result)
    then have "Response_Trailer rs' h2 = (m, rs', h2)" by (simp add: Response_Trailer_set)
    then show "Response_Trailer rs' h2 = (m, rs', h2) \<and>
      (Header_Set m key v h1 = Some h2 \<longrightarrow>
         Header_Values h2 (fst (Response_Trailer rs' h2)) key = [v])"
      by (simp add: Header_Set_visible)
  qed
  from never_nil constructed first_rq first_rs first_tr later_rq later_rs later_tr
  show ?thesis by blast
qed
theorem C10_header_accessors_witness:
  "req_header (NewRequest ''T'' ''m'') = None \<and>
   Request_Header (NewRequest ''T'' ''m'') empty_heap
     = (Some 0, (NewRequest ''T'' ''m'')\<lparr>req_header := Some 0\<rparr>,
        \<lparr>objs = [0 \<mapsto> Map.empty], next_addr = 1\<rparr>) \<and>
   Header_Set (Some 0) ''k'' ''v'' \<lparr>objs = [0 \<mapsto> Map.empty], next_addr = 1\<rparr>
     = Some \<lparr>objs = [0 \<mapsto> [''k'' \<mapsto> [''v'']]], next_addr = 1\<rparr> \<and>
   Request_Header ((NewRequest ''T'' ''m'')\<lparr>req_header := Some 0\<rparr>)
       \<lparr>objs = [0 \<mapsto> [''k'' \<mapsto> [''v'']]], next_addr = 1\<rparr>
     = (Some 0, (NewRequest ''T'' ''m'')\<lparr>req_header := Some 0\<rparr>,
        \<lparr>objs = [0 \<mapsto> [''k'' \<mapsto> [''v'']]], next_addr = 1\<rparr>) \<and>
   Header_Values \<lparr>objs = [0 \<mapsto> [''k'' \<mapsto> [''v'']]], next_addr = 1\<rparr>
       (fst (Request_Header ((NewRequest ''T'' ''m'')\<lparr>req_header := Some 0\<rparr>)
          \<lparr>objs = [0 \<mapsto> [''k'' \<mapsto> [''v'']]], next_addr = 1\<rparr>)) ''k'' = [''v''] \<and>
   res_header (NewResponse ''T'' ''m'') = None \<and>
   Response_Header (NewResponse ''T'' ''m'') empty_heap
     = (Some 0, (NewResponse ''T'' ''m'')\<lparr>res_header := Some 0\<rparr>,
        \<lparr>objs = [0 \<mapsto> Map.empty], next_addr = 1\<rparr>) \<and>
   Header_Values \<lparr>objs = [0 \<mapsto> [''k'' \<mapsto> [''v'']]], next_addr = 1\<rparr>
       (fst (Response_Header ((NewResponse ''T'' ''m'')\<lparr>res_header := Some 0\<rparr>)
          \<lparr>objs = [0 \<mapsto> [''k'' \<mapsto> [''v'']]], next_addr = 1\<rparr>)) ''k'' = [''v''] \<and>
   res_trailer (NewResponse ''T'' ''m'') = None \<and>
   Response_Trailer (NewResponse ''T'' ''m'') empty_heap
     = (Some 0, (NewResponse ''T'' ''m'')\<lparr>res_trailer := Some 0\<rparr>,
        \<lparr>objs = [0 \<mapsto> Map.empty], next_addr = 1\<rparr>) \<and>
   Header_Values \<lparr>objs = [0 \<mapsto> [''k'' \<mapsto> [''v'']]], next_addr = 1\<rparr>
       (fst (Response_Trailer ((NewResponse ''T'' ''m'')\<lparr>res_trailer := Some 0\<rparr>)
          \<lparr>objs = [0 \<mapsto> [''k'' \<mapsto> [''v'']]], next_addr = 1\<rparr>)) ''k'' = [''v'']"
proof -
  let ?rq = "NewRequest ''T'' ''m''" and ?rs = "NewResponse ''T'' ''m''"
  let ?h1 = "\<lparr>objs = [0 \<mapsto> Map.empty], next_addr = 1\<rparr> :: heap"
  let ?h2 = "\<lparr>objs = [0 \<mapsto> [''k'' \<mapsto> [''v'']]], next_addr = 1\<rparr> :: heap"
  have nil: "req_header ?rq = None" "res_header ?rs = None" "res_trailer ?rs = None"
    by (simp_all add: NewRequest_def NewResponse_def)
  have first:
    "Request_Header ?rq empty_heap = (Some 0, ?rq\<lparr>req_header := Some 0\<rparr>, ?h1)"
    "Response_Header ?rs empty_heap = (Some 0, ?rs\<lparr>res_header := Some 0\<rparr>, ?h1)"
    "Response_Trailer ?rs empty_heap = (Some 0, ?rs\<lparr>res_trailer := Some 0\<rparr>, ?h1)"
    by (simp_all add: Request_Header_def Response_Header_def Response_Trailer_def
        make_Header_def NewRequest_def NewResponse_def empty_heap_def)
  have stored: "Header_Set (Some 0) ''k'' ''v'' ?h1 = Some ?h2"
    by (simp add: Header_Set_def)
  note inst = C10_header_accessors
    [where rq = "?rq" and rs = "?rs" and h = empty_heap and m = "Some 0" and ?h1.0 = "?h1"
       and ?h2.0 = "?h2" and key = "''k''" and v = "''v''" and T = "''T''" and msg = "''m''"
       and rq' = "?rq\<lparr>req_header := Some 0\<rparr>"]
  have rq: "Request_Header (?rq\<lparr>req_header := Some 0\<rparr>) ?h2
              = (Some 0, ?rq\<lparr>req_header := Some 0\<rparr>, ?h2) \<and>
            Header_Values ?h2 (fst (Request_Header (?rq\<lparr>req_header := Some 0\<rparr>) ?h2)) ''k''
              = [''v'']"
    using inst [where rs' = "?rs\<lparr>res_header := Some 0\<rparr>"] first(1) stored by blast
  have rs: "Header_Values ?h2 (fst (Response_Header (?rs\<lparr>res_header := Some 0\<rparr>) ?h2)) ''k''
              = [''v'']"
    using inst [where rs' = "?rs\<lparr>res_header := Some 0\<rparr>"] first(2) stored by blast
  have tr: "Header_Values ?h2 (fst (Response_Trailer (?rs\<lparr>res_trailer := Some 0\<rparr>) ?h2)) ''k''
              = [''v'']"
    using inst [where rs' = "?rs\<lparr>res_trailer := Some 0\<rparr>"] first(3) stored by blast
  from nil first stored rq rs tr show ?thesis by blast
qed

section \<open>The paths through \<open>ServeHTTP\<close>\<close>

lemma ServeHTTP_version_gate:
  assumes "is_bidi h" "ProtoMajor request < 2"
  shows "ServeHTTP canon h request w
       = (Returned, [], rw_WriteHeader StatusHTTPVersionNotSupported w)"
  using assms by (auto simp: ServeHTTP_def)

lemma ServeHTTP_method_gate:
  assumes "\<not> (is_bidi h \<and> ProtoMajor request < 2)" "Method request \<noteq> MethodPost"
  shows "ServeHTTP canon h request w
       = (Returned, [],
          rw_WriteHeader StatusMethodNotAllowed (rw_Header_Set ''Allow'' MethodPost w))"
  using assms by (auto simp: ServeHTTP_def)

lemma ServeHTTP_unsupported:
  assumes "\<not> (is_bidi h \<and> ProtoMajor request < 2)" "Method request = MethodPost"
    and "select_protocolHandler (canon (header_Get (Header request) ''Content-Type''))
           (protocolHandlers h) = None"
  shows "ServeHTTP canon h request w
       = (Returned, [],
          rw_WriteHeader StatusUnsupportedMediaType
            (rw_Header_Set ''Accept-Post'' (acceptPost h) w))"
  using assms by (auto simp: ServeHTTP_def)

lemma ServeHTTP_served:
  assumes "\<not> (is_bidi h \<and> ProtoMajor request < 2)" "Method request = MethodPost"
    and "select_protocolHandler (canon (header_Get (Header request) ''Content-Type''))
           (protocolHandlers h) = Some p"
    and "request1 = request\<lparr>Header := header_Set (Header request) ''Content-Type''
           (canon (header_Get (Header request) ''Content-Type''))\<rparr>"
    and "SetTimeout p request1 = (ctx0, cancel, timeoutErr)"
    and "ctx = (if timeoutErr \<noteq> None then Context request else ctx0)"
    and "NewConn p (request1\<lparr>Context := ctx\<rparr>) w = (conn, w1)"
  shows "ServeHTTP canon h request w =
     (let called = [Call_SetTimeout request1, Call_NewConn (request1\<lparr>Context := ctx\<rparr>)];
          deferred = (if cancel then [Call_cancel] else [])
      in case conn of
        None \<Rightarrow> (Returned, called @ deferred, w1)
      | Some connCloser \<Rightarrow>
          (case timeoutErr of
             Some e \<Rightarrow>
               (Returned, called @ [Call_Close (Some e)] @ deferred,
                snd (Close connCloser (Some e) w1))
           | None \<Rightarrow>
               (case implementation h ctx connCloser w1 of
                  (Panic, w') \<Rightarrow> (Panicked, called @ [Call_implementation ctx] @ deferred, w')
                | (Return err, w') \<Rightarrow>
                    (Returned, called @ [Call_implementation ctx, Call_Close err] @ deferred,
                     snd (Close connCloser err w')))))"
proof -
  let ?ct = "canon (header_Get (Header request) ''Content-Type'')"
  let ?r1 = "request\<lparr>Header := header_Set (Header request) ''Content-Type'' ?ct\<rparr>"
  have gate: "(is_bidi h \<and> ProtoMajor request < 2) = False"
    using assms(1) by simp
  have sel: "select_protocolHandler ?ct (protocolHandlers h) = Some p"
    by (rule assms(3))
  have st: "SetTimeout p ?r1 = (ctx0, cancel, timeoutErr)"
    using assms(5) unfolding assms(4) .
  show ?thesis
  proof (cases timeoutErr)
    case None
    then have ctx: "ctx = ctx0" using assms(6) by simp
    have nc: "NewConn p (?r1\<lparr>Context := ctx0\<rparr>) w = (conn, w1)"
      using assms(7) unfolding assms(4) ctx .
    show ?thesis
      unfolding ServeHTTP_def Let_def gate assms(4) ctx
      by (simp add: assms(2) sel st nc None split: option.splits outcome.splits prod.splits)
  next
    case (Some e)
    then have ctx: "ctx = Context request" using assms(6) by simp
    have nc: "NewConn p (?r1\<lparr>Context := Context request\<rparr>) w = (conn, w1)"
      using assms(7) unfolding assms(4) ctx .
    show ?thesis
      unfolding ServeHTTP_def Let_def gate assms(4) ctx
      by (simp add: assms(2) sel st nc [simplified] Some
          split: option.splits outcome.splits prod.splits)
  qed
qed

lemma ServeHTTP_stream:
  assumes "\<not> (is_bidi h \<and> ProtoMajor request < 2)" "Method request = ''POST''"
    and "select_protocolHandler (canon (header_Get (Header request) ''Content-Type''))
           (protocolHandlers h) = Some p"
    and "request1 = request\<lparr>Header := (Header request)(''Content-Type'' \<mapsto>
           [canon (header_Get (Header request) ''Content-Type'')])\<rparr>"
    and "SetTimeout p request1 = (ctx0, cancel, timeoutErr)"
    and "ctx = (if timeoutErr \<noteq> None then Context request else ctx0)"
    and "NewConn p (request1\<lparr>Context := ctx\<rparr>) w = (conn, w1)"
  shows "ServeHTTP canon h request w =
     (let called = [Call_SetTimeout request1, Call_NewConn (request1\<lparr>Context := ctx\<rparr>)];
          deferred = (if cancel then [Call_cancel] else [])
      in case conn of
        None \<Rightarrow> (Returned, called @ deferred, w1)
      | Some connCloser \<Rightarrow>
          (case timeoutErr of
             Some e \<Rightarrow>
               (Returned, called @ [Call_Close (Some e)] @ deferred,
                snd (Close connCloser (Some e) w1))
           | None \<Rightarrow>
               (case implementation h ctx connCloser w1 of
                  (Panic, w') \<Rightarrow> (Panicked, called @ [Call_implementation ctx] @ deferred, w')
                | (Return err, w') \<Rightarrow>
                    (Returned, called @ [Call_implementation ctx, Call_Close err] @ deferred,
                     snd (Close connCloser err w')))))"
proof -
  have post: "Method request = MethodPost"
    using assms(2) by (simp add: MethodPost_def)
  have r1: "request1 = request\<lparr>Header := header_Set (Header request) ''Content-Type''
           (canon (header_Get (Header request) ''Content-Type''))\<rparr>"
    using assms(4) by (simp add: header_Set_def)
  show ?thesis
    by (rule ServeHTTP_served [where canon = canon and request = request,
          OF assms(1) post assms(3) r1 assms(5) assms(6) assms(7)])
qed

section \<open>Claims about \<open>ServeHTTP\<close>\<close>

lemma is_bidi_iff: "(st AND StreamTypeBidi) = StreamTypeBidi \<longleftrightarrow> bit st 0 \<and> bit st 1"
  for st :: StreamType
proof -
  have three: "StreamTypeBidi = 3"
    by (simp add: StreamTypeBidi_def StreamTypeClient_def StreamTypeServer_def)
  have "(st AND 3) = 3 \<longleftrightarrow> bit st 0 \<and> bit st 1"
  proof
    assume a: "st AND 3 = 3"
    have "bit (st AND 3) 0" "bit (st AND 3) 1"
      unfolding a by simp_all
    then show "bit st 0 \<and> bit st 1"
      by (simp add: bit_and_iff)
  next
    assume b: "bit st 0 \<and> bit st 1"
    show "st AND 3 = 3"
    proof (rule bit_word_eqI)
      fix n assume "n < LENGTH(8)"
      have "bit (3 :: 8 word) n \<longleftrightarrow> n = 0 \<or> n = 1"
        by (cases n; cases "n - 1") (simp_all add: bit_Suc numeral_3_eq_3)
      then show "bit (st AND 3) n \<longleftrightarrow> bit (3 :: 8 word) n"
        using b by (auto simp: bit_and_iff)
    qed
  qed
  then show ?thesis by (simp add: three)
qed

text \<open>
  C3, as stated, on a bidirectional handler that receives a GET over HTTP/1: the
  version check comes first, so the response is 505 and no \<open>Allow\<close> header is set.
\<close>

theorem C3_method_gate_counterexample:
  "Method (example_request ''GET'' 1 ''application/grpc'') \<noteq> ''POST'' \<and>
   rw_status (writer (snd (snd (ServeHTTP id (example_handler StreamTypeBidi succeeding)
       (example_request ''GET'' 1 ''application/grpc'') start_world)))) = [505] \<and>
   rw_Header (writer (snd (snd (ServeHTTP id (example_handler StreamTypeBidi succeeding)
       (example_request ''GET'' 1 ''application/grpc'') start_world)))) ''Allow'' = None"
  by (simp add: ServeHTTP_def example_handler_def example_request_def start_world_def
      StreamTypeBidi_def StreamTypeClient_def StreamTypeServer_def rw_WriteHeader_def
      StatusHTTPVersionNotSupported_def)

text \<open>
  C3, amended: for every handler and every request whose method is not POST,
  \<^verbatim>\<open>ServeHTTP\<close> responds 405 with the \<open>Allow\<close> header set to POST and calls no adapter,
  unless the handler is bidirectional and the request's HTTP major version is below 2;
  in that case it responds 505 and leaves the headers alone, whatever the method. A
  handler is bidirectional when both bits of its stream type are set.
\<close>

theorem C3_method_gate_amended:
  "(Method request \<noteq> ''POST'' \<and> \<not> (is_bidi h \<and> ProtoMajor request < 2) \<longrightarrow>
      ServeHTTP canon h request w =
        (Returned, [],
         w\<lparr>writer := \<lparr>rw_Header = (rw_Header (writer w))(''Allow'' \<mapsto> [''POST'']),
                       rw_status = rw_status (writer w) @ [405]\<rparr>\<rparr>)) \<and>
   (is_bidi h \<and> ProtoMajor request < 2 \<longrightarrow>
      ServeHTTP canon h request w =
        (Returned, [], w\<lparr>writer := (writer w)\<lparr>rw_status := rw_status (writer w) @ [505]\<rparr>\<rparr>)) \<and>
   (is_bidi h \<longleftrightarrow> bit (StreamType (h_spec h)) 0 \<and> bit (StreamType (h_spec h)) 1)"
proof -
  have m: "Method request \<noteq> ''POST'' \<and> \<not> (is_bidi h \<and> ProtoMajor request < 2) \<longrightarrow>
      ServeHTTP canon h request w =
        (Returned, [],
         w\<lparr>writer := \<lparr>rw_Header = (rw_Header (writer w))(''Allow'' \<mapsto> [''POST'']),
                       rw_status = rw_status (writer w) @ [405]\<rparr>\<rparr>)"
  proof
    assume a: "Method request \<noteq> ''POST'' \<and> \<not> (is_bidi h \<and> ProtoMajor request < 2)"
    then have "ServeHTTP canon h request w
       = (Returned, [],
          rw_WriteHeader StatusMethodNotAllowed (rw_Header_Set ''Allow'' MethodPost w))"
      by (intro ServeHTTP_method_gate) (simp_all add: MethodPost_def)
    then show "ServeHTTP canon h request w =
        (Returned, [],
         w\<lparr>writer := \<lparr>rw_Header = (rw_Header (writer w))(''Allow'' \<mapsto> [''POST'']),
                       rw_status = rw_status (writer w) @ [405]\<rparr>\<rparr>)"
      by (simp add: rw_WriteHeader_def rw_Header_Set_def header_Set_def MethodPost_def
          StatusMethodNotAllowed_def)
  qed
  have v: "is_bidi h \<and> ProtoMajor request < 2 \<longrightarrow>
      ServeHTTP canon h request w =
        (Returned, [], w\<lparr>writer := (writer w)\<lparr>rw_status := rw_status (writer w) @ [505]\<rparr>\<rparr>)"
    by (simp add: ServeHTTP_version_gate rw_WriteHeader_def StatusHTTPVersionNotSupported_def)
  have b: "is_bidi h \<longleftrightarrow> bit (StreamType (h_spec h)) 0 \<and> bit (StreamType (h_spec h)) 1"
    by (rule is_bidi_iff)
  from m v b show ?thesis by blast
qed

theorem C3_method_gate_amended_witness:
  "Method (example_request ''GET'' 1 ''application/grpc'') \<noteq> ''POST'' \<and>
   \<not> is_bidi (example_handler StreamTypeServer succeeding) \<and>
   ServeHTTP id (example_handler StreamTypeServer succeeding)
       (example_request ''GET'' 1 ''application/grpc'') start_world
     = (Returned, [],
        start_world\<lparr>writer := \<lparr>rw_Header = [''Allow'' \<mapsto> [''POST'']], rw_status = [405]\<rparr>\<rparr>) \<and>
   is_bidi (example_handler StreamTypeBidi succeeding) \<and>
   ServeHTTP id (example_handler StreamTypeBidi succeeding)
       (example_request ''GET'' 1 ''application/grpc'') start_world
     = (Returned, [],
        start_world\<lparr>writer := \<lparr>rw_Header = Map.empty, rw_status = [505]\<rparr>\<rparr>)"
proof -
  let ?get = "example_request ''GET'' 1 ''application/grpc''"
  have get: "Method ?get \<noteq> ''POST''" "ProtoMajor ?get < 2"
    by (simp_all add: example_request_def)
  have server: "\<not> is_bidi (example_handler StreamTypeServer succeeding)"
    by (simp add: example_handler_def StreamTypeBidi_def StreamTypeClient_def
        StreamTypeServer_def)
  have bidi: "is_bidi (example_handler StreamTypeBidi succeeding)"
    by (simp add: example_handler_def)
  have w: "writer start_world = \<lparr>rw_Header = Map.empty, rw_status = []\<rparr>"
    by (simp add: start_world_def)
  show ?thesis
    using C3_method_gate_amended
        [where request = "?get" and h = "example_handler StreamTypeServer succeeding"
           and canon = id and w = start_world]
      C3_method_gate_amended
        [where request = "?get" and h = "example_handler StreamTypeBidi succeeding"
           and canon = id and w = start_world]
      get server bidi w
    by simp
qed

lemma select_protocolHandler_None:
  "select_protocolHandler ct hs = None \<longleftrightarrow> (\<forall>p \<in> set hs. ct \<notin> ContentTypes p)"
  by (induction hs) auto

lemma select_protocolHandler_first:
  "select_protocolHandler ct hs = Some p \<Longrightarrow>
     \<exists>i < length hs. hs ! i = p \<and> ct \<in> ContentTypes p \<and> (\<forall>j < i. ct \<notin> ContentTypes (hs ! j))"
proof (induction hs)
  case Nil
  then show ?case by simp
next
  case (Cons handler rest)
  show ?case
  proof (cases "ct \<in> ContentTypes handler")
    case True
    with Cons.prems have "handler = p" by simp
    with True show ?thesis by (intro exI [of _ 0]) simp
  next
    case False
    with Cons obtain i where i: "i < length rest" "rest ! i = p" "ct \<in> ContentTypes p"
      "\<forall>j < i. ct \<notin> ContentTypes (rest ! j)"
      by auto
    have "\<forall>j < Suc i. ct \<notin> ContentTypes ((handler # rest) ! j)"
      using False i(4) by (auto simp: less_Suc_eq_0_disj)
    with i show ?thesis by (intro exI [of _ "Suc i"]) simp
  qed
qed

lemma select_protocolHandler_member:
  "select_protocolHandler ct hs = Some p \<Longrightarrow> ct \<in> ContentTypes p"
  using select_protocolHandler_first by blast

lemma ServeHTTP_routes:
  assumes "select_protocolHandler (canon (header_Get (Header request) ''Content-Type''))
             (protocolHandlers h) = Some p"
  shows "ServeHTTP canon h request w = ServeHTTP canon (h\<lparr>protocolHandlers := [p]\<rparr>) request w"
proof -
  have only: "select_protocolHandler (canon (header_Get (Header request) ''Content-Type''))
      (protocolHandlers (h\<lparr>protocolHandlers := [p]\<rparr>)) = Some p"
    using select_protocolHandler_member [OF assms] by simp
  have same: "h_spec (h\<lparr>protocolHandlers := [p]\<rparr>) = h_spec h"
    "implementation (h\<lparr>protocolHandlers := [p]\<rparr>) = implementation h"
    "acceptPost (h\<lparr>protocolHandlers := [p]\<rparr>) = acceptPost h"
    by simp_all
  show ?thesis
    unfolding ServeHTTP_def Let_def by (simp only: assms only same option.case)
qed

lemma ServeHTTP_calls_prefix:
  assumes "\<not> (is_bidi h \<and> ProtoMajor request < 2)" "Method request = MethodPost"
    and "select_protocolHandler (canon (header_Get (Header request) ''Content-Type''))
           (protocolHandlers h) = Some p"
    and "request1 = request\<lparr>Header := header_Set (Header request) ''Content-Type''
           (canon (header_Get (Header request) ''Content-Type''))\<rparr>"
  shows "\<exists>ctx rest. fst (snd (ServeHTTP canon h request w))
           = Call_SetTimeout request1 # Call_NewConn (request1\<lparr>Context := ctx\<rparr>) # rest"
proof -
  obtain ctx0 cancel timeoutErr where st: "SetTimeout p request1 = (ctx0, cancel, timeoutErr)"
    by (cases "SetTimeout p request1") auto
  define ctx where "ctx = (if timeoutErr \<noteq> None then Context request else ctx0)"
  obtain conn w1 where nc: "NewConn p (request1\<lparr>Context := ctx\<rparr>) w = (conn, w1)"
    by (cases "NewConn p (request1\<lparr>Context := ctx\<rparr>) w") auto
  have "\<exists>rest. fst (snd (ServeHTTP canon h request w))
           = Call_SetTimeout request1 # Call_NewConn (request1\<lparr>Context := ctx\<rparr>) # rest"
    unfolding ServeHTTP_served
        [where canon = canon and request = request, OF assms(1-4) st ctx_def nc]
    by (auto simp: Let_def split: option.splits outcome.splits prod.splits)
  then show ?thesis by blast
qed

lemma supported_types_sorted:
  assumes "\<forall>p \<in> set hs. finite (ContentTypes p)"
  shows "sorted (supported_types hs) \<and> distinct (supported_types hs) \<and>
         set (supported_types hs) = (\<Union>p \<in> set hs. ContentTypes p)"
  using assms by (simp add: supported_types_def)

lemma NewUnaryHandler_acceptPost:
  "acceptPost (NewUnaryHandler Req NewHandler render procedure unary options)
     = render (supported_types
         (protocolHandlers (NewUnaryHandler Req NewHandler render procedure unary options)))"
  by (simp add: NewUnaryHandler_def Let_def sortedAcceptPostValue_def)

text \<open>
  C4: on a POST that passes the version check, \<^verbatim>\<open>ServeHTTP\<close> takes the first adapter of
  the list whose content types contain the canonical content type of the request: the
  adapters before it do not contain it, the rest of the call is what it would be were
  that adapter the only one, and the calls to the adapter start with \<^verbatim>\<open>SetTimeout\<close> and
  \<^verbatim>\<open>NewConn\<close> on the request whose \<open>Content-Type\<close> header is the canonical value. If no
  adapter contains it, the response is 415 with \<open>Accept-Post\<close> set to the handler's
  precomputed value and no adapter is called. The request that matched is served by the
  selected adapter: what \<^verbatim>\<open>ServeHTTP\<close> returns, calls and leaves is fixed by that
  adapter's \<^verbatim>\<open>SetTimeout\<close> and \<^verbatim>\<open>NewConn\<close> on the request with the canonical header, the
  handler's implementation and the \<^verbatim>\<open>Close\<close> of the stream that adapter constructed. For
  a handler made by \<^verbatim>\<open>NewUnaryHandler\<close>
  the precomputed value is written from the list of all content types of all its
  adapters, without repetition, in lexicographic order of their bytes.
\<close>

theorem C4_protocol_selection:
  assumes "\<not> (is_bidi h \<and> ProtoMajor request < 2)" and "Method request = ''POST''"
    and "contentType = canon (header_Get (Header request) ''Content-Type'')"
  shows
    "(select_protocolHandler contentType (protocolHandlers h) = Some p \<longrightarrow>
        (\<exists>i < length (protocolHandlers h).
            protocolHandlers h ! i = p \<and> contentType \<in> ContentTypes p \<and>
            (\<forall>j < i. contentType \<notin> ContentTypes (protocolHandlers h ! j))) \<and>
        ServeHTTP canon h request w
          = ServeHTTP canon (h\<lparr>protocolHandlers := [p]\<rparr>) request w \<and>
        (\<exists>ctx rest. fst (snd (ServeHTTP canon h request w))
           = Call_SetTimeout
               (request\<lparr>Header := (Header request)(''Content-Type'' \<mapsto> [contentType])\<rparr>)
             # Call_NewConn
                 (request\<lparr>Header := (Header request)(''Content-Type'' \<mapsto> [contentType]),
                          Context := ctx\<rparr>)
             # rest)) \<and>
     ((\<exists>q \<in> set (protocolHandlers h). contentType \<in> ContentTypes q) \<longrightarrow>
        (\<exists>q. select_protocolHandler contentType (protocolHandlers h) = Some q)) \<and>
     ((\<forall>q \<in> set (protocolHandlers h). contentType \<notin> ContentTypes q) \<longrightarrow>
        ServeHTTP canon h request w =
          (Returned, [],
           w\<lparr>writer := \<lparr>rw_Header = (rw_Header (writer w))(''Accept-Post'' \<mapsto> [acceptPost h]),
                         rw_status = rw_status (writer w) @ [415]\<rparr>\<rparr>)) \<and>
     acceptPost (NewUnaryHandler Req NewHandler render procedure unary options)
       = render (supported_types
           (protocolHandlers (NewUnaryHandler Req NewHandler render procedure unary options))) \<and>
     ((\<forall>q \<in> set hs. finite (ContentTypes q)) \<longrightarrow>
        sorted (supported_types hs) \<and> distinct (supported_types hs) \<and>
        set (supported_types hs) = (\<Union>q \<in> set hs. ContentTypes q)) \<and>
     ((c # s) \<le> (d # t) \<longleftrightarrow> of_char c < (of_char d :: nat) \<or> (c = d \<and> s \<le> t)) \<and> [] \<le> t \<and>
     (select_protocolHandler contentType (protocolHandlers h) = Some p \<and>
      SetTimeout p (request\<lparr>Header := (Header request)(''Content-Type'' \<mapsto> [contentType])\<rparr>)
        = (ctx0, cancel, timeoutErr) \<and>
      NewConn p
        (request\<lparr>Header := (Header request)(''Content-Type'' \<mapsto> [contentType]),
                 Context := (if timeoutErr \<noteq> None then Context request else ctx0)\<rparr>) w
        = (conn, w1) \<longrightarrow>
        ServeHTTP canon h request w =
          (let request1 =
                 request\<lparr>Header := (Header request)(''Content-Type'' \<mapsto> [contentType])\<rparr>;
               ctx = (if timeoutErr \<noteq> None then Context request else ctx0);
               called = [Call_SetTimeout request1, Call_NewConn (request1\<lparr>Context := ctx\<rparr>)];
               deferred = (if cancel then [Call_cancel] else [])
           in case conn of
                None \<Rightarrow> (Returned, called @ deferred, w1)
              | Some connCloser \<Rightarrow>
                  (case timeoutErr of
                     Some e \<Rightarrow>
                       (Returned, called @ [Call_Close (Some e)] @ deferred,
                        snd (Close connCloser (Some e) w1))
                   | None \<Rightarrow>
                       (case implementation h ctx connCloser w1 of
                          (Panic, w') \<Rightarrow>
                            (Panicked, called @ [Call_implementation ctx] @ deferred, w')
                        | (Return err, w') \<Rightarrow>
                            (Returned,
                             called @ [Call_implementation ctx, Call_Close err] @ deferred,
                             snd (Close connCloser err w'))))))"
proof -
  have post: "Method request = MethodPost"
    using assms(2) by (simp add: MethodPost_def)
  have found: "select_protocolHandler contentType (protocolHandlers h) = Some p \<longrightarrow>
        (\<exists>i < length (protocolHandlers h).
            protocolHandlers h ! i = p \<and> contentType \<in> ContentTypes p \<and>
            (\<forall>j < i. contentType \<notin> ContentTypes (protocolHandlers h ! j))) \<and>
        ServeHTTP canon h request w
          = ServeHTTP canon (h\<lparr>protocolHandlers := [p]\<rparr>) request w \<and>
        (\<exists>ctx rest. fst (snd (ServeHTTP canon h request w))
           = Call_SetTimeout
               (request\<lparr>Header := (Header request)(''Content-Type'' \<mapsto> [contentType])\<rparr>)
             # Call_NewConn
                 (request\<lparr>Header := (Header request)(''Content-Type'' \<mapsto> [contentType]),
                          Context := ctx\<rparr>)
             # rest)"
  proof
    assume sel: "select_protocolHandler contentType (protocolHandlers h) = Some p"
    have first: "\<exists>i < length (protocolHandlers h).
            protocolHandlers h ! i = p \<and> contentType \<in> ContentTypes p \<and>
            (\<forall>j < i. contentType \<notin> ContentTypes (protocolHandlers h ! j))"
      using sel by (rule select_protocolHandler_first)
    have routes: "ServeHTTP canon h request w
          = ServeHTTP canon (h\<lparr>protocolHandlers := [p]\<rparr>) request w"
      using sel unfolding assms(3) by (rule ServeHTTP_routes)
    have "\<exists>ctx rest. fst (snd (ServeHTTP canon h request w))
           = Call_SetTimeout
               (request\<lparr>Header := header_Set (Header request) ''Content-Type''
                  (canon (header_Get (Header request) ''Content-Type''))\<rparr>)
             # Call_NewConn
                 (request\<lparr>Header := header_Set (Header request) ''Content-Type''
                    (canon (header_Get (Header request) ''Content-Type''))\<rparr>
                  \<lparr>Context := ctx\<rparr>)
             # rest"
      using assms(1) post sel [unfolded assms(3)] refl by (rule ServeHTTP_calls_prefix)
    then have calls: "\<exists>ctx rest. fst (snd (ServeHTTP canon h request w))
           = Call_SetTimeout
               (request\<lparr>Header := (Header request)(''Content-Type'' \<mapsto> [contentType])\<rparr>)
             # Call_NewConn
                 (request\<lparr>Header := (Header request)(''Content-Type'' \<mapsto> [contentType]),
                          Context := ctx\<rparr>)
             # rest"
      by (simp add: header_Set_def assms(3))
    from first routes calls show "(\<exists>i < length (protocolHandlers h).
            protocolHandlers h ! i = p \<and> contentType \<in> ContentTypes p \<and>
            (\<forall>j < i. contentType \<notin> ContentTypes (protocolHandlers h ! j))) \<and>
        ServeHTTP canon h request w
          = ServeHTTP canon (h\<lparr>protocolHandlers := [p]\<rparr>) request w \<and>
        (\<exists>ctx rest. fst (snd (ServeHTTP canon h request w))
           = Call_SetTimeout
               (request\<lparr>Header := (Header request)(''Content-Type'' \<mapsto> [contentType])\<rparr>)
             # Call_NewConn
                 (request\<lparr>Header := (Header request)(''Content-Type'' \<mapsto> [contentType]),
                          Context := ctx\<rparr>)
             # rest)"
      by blast
  qed
  have some: "(\<exists>q \<in> set (protocolHandlers h). contentType \<in> ContentTypes q) \<longrightarrow>
        (\<exists>q. select_protocolHandler contentType (protocolHandlers h) = Some q)"
    using select_protocolHandler_None [of contentType "protocolHandlers h"] by auto
  have none: "(\<forall>q \<in> set (protocolHandlers h). contentType \<notin> ContentTypes q) \<longrightarrow>
        ServeHTTP canon h request w =
          (Returned, [],
           w\<lparr>writer := \<lparr>rw_Header = (rw_Header (writer w))(''Accept-Post'' \<mapsto> [acceptPost h]),
                         rw_status = rw_status (writer w) @ [415]\<rparr>\<rparr>)"
  proof
    assume "\<forall>q \<in> set (protocolHandlers h). contentType \<notin> ContentTypes q"
    then have "select_protocolHandler (canon (header_Get (Header request) ''Content-Type''))
           (protocolHandlers h) = None"
      unfolding assms(3) by (simp add: select_protocolHandler_None)
    with assms(1) post have "ServeHTTP canon h request w
       = (Returned, [],
          rw_WriteHeader StatusUnsupportedMediaType
            (rw_Header_Set ''Accept-Post'' (acceptPost h) w))"
      by (rule ServeHTTP_unsupported)
    then show "ServeHTTP canon h request w =
          (Returned, [],
           w\<lparr>writer := \<lparr>rw_Header = (rw_Header (writer w))(''Accept-Post'' \<mapsto> [acceptPost h]),
                         rw_status = rw_status (writer w) @ [415]\<rparr>\<rparr>)"
      by (simp add: rw_WriteHeader_def rw_Header_Set_def header_Set_def
          StatusUnsupportedMediaType_def)
  qed
  have accept: "acceptPost (NewUnaryHandler Req NewHandler render procedure unary options)
       = render (supported_types
           (protocolHandlers (NewUnaryHandler Req NewHandler render procedure unary options)))"
    by (rule NewUnaryHandler_acceptPost)
  have sorted: "(\<forall>q \<in> set hs. finite (ContentTypes q)) \<longrightarrow>
        sorted (supported_types hs) \<and> distinct (supported_types hs) \<and>
        set (supported_types hs) = (\<Union>q \<in> set hs. ContentTypes q)"
    using supported_types_sorted [of hs] by blast
  have order: "((c # s) \<le> (d # t) \<longleftrightarrow> of_char c < (of_char d :: nat) \<or> (c = d \<and> s \<le> t))
      \<and> [] \<le> t"
    by (auto simp: less_char_def)
  have served: "(select_protocolHandler contentType (protocolHandlers h) = Some p \<and>
    SetTimeout p (request\<lparr>Header := (Header request)(''Content-Type'' \<mapsto> [contentType])\<rparr>)
      = (ctx0, cancel, timeoutErr) \<and>
    NewConn p
      (request\<lparr>Header := (Header request)(''Content-Type'' \<mapsto> [contentType]),
             Context := (if timeoutErr \<noteq> None then Context request else ctx0)\<rparr>) w
      = (conn, w1) \<longrightarrow>
      ServeHTTP canon h request w =
      (let request1 =
             request\<lparr>Header := (Header request)(''Content-Type'' \<mapsto> [contentType])\<rparr>;
           ctx = (if timeoutErr \<noteq> None then Context request else ctx0);
           called = [Call_SetTimeout request1, Call_NewConn (request1\<lparr>Context := ctx\<rparr>)];
           deferred = (if cancel then [Call_cancel] else [])
       in case conn of
            None \<Rightarrow> (Returned, called @ deferred, w1)
          | Some connCloser \<Rightarrow>
              (case timeoutErr of
                 Some e \<Rightarrow>
                   (Returned, called @ [Call_Close (Some e)] @ deferred,
                    snd (Close connCloser (Some e) w1))
               | None \<Rightarrow>
                   (case implementation h ctx connCloser w1 of
                      (Panic, w') \<Rightarrow>
                        (Panicked, called @ [Call_implementation ctx] @ deferred, w')
                    | (Return err, w') \<Rightarrow>
                        (Returned,
                         called @ [Call_implementation ctx, Call_Close err] @ deferred,
                         snd (Close connCloser err w'))))))"
  proof
    assume a: "select_protocolHandler contentType (protocolHandlers h) = Some p \<and>
      SetTimeout p (request\<lparr>Header := (Header request)(''Content-Type'' \<mapsto> [contentType])\<rparr>)
        = (ctx0, cancel, timeoutErr) \<and>
      NewConn p
        (request\<lparr>Header := (Header request)(''Content-Type'' \<mapsto> [contentType]),
                 Context := (if timeoutErr \<noteq> None then Context request else ctx0)\<rparr>) w
        = (conn, w1)"
    have same_context: "\<And>x. request\<lparr>Header := x, Context := Context request\<rparr>
        = request\<lparr>Header := x\<rparr>"
      by (cases request) simp
    have sel: "select_protocolHandler (canon (header_Get (Header request) ''Content-Type''))
        (protocolHandlers h) = Some p"
      using a unfolding assms(3) by blast
    have r1: "request\<lparr>Header := (Header request)(''Content-Type'' \<mapsto> [contentType])\<rparr>
        = request\<lparr>Header := (Header request)(''Content-Type'' \<mapsto>
            [canon (header_Get (Header request) ''Content-Type'')])\<rparr>"
      unfolding assms(3) by (rule refl)
    have st: "SetTimeout p
        (request\<lparr>Header := (Header request)(''Content-Type'' \<mapsto> [contentType])\<rparr>)
        = (ctx0, cancel, timeoutErr)"
      using a by blast
    have nc: "NewConn p
        ((request\<lparr>Header := (Header request)(''Content-Type'' \<mapsto> [contentType])\<rparr>)
           \<lparr>Context := (if timeoutErr \<noteq> None then Context request else ctx0)\<rparr>) w
        = (conn, w1)"
      using a by simp
    show "ServeHTTP canon h request w =
          (let request1 =
                 request\<lparr>Header := (Header request)(''Content-Type'' \<mapsto> [contentType])\<rparr>;
               ctx = (if timeoutErr \<noteq> None then Context request else ctx0);
               called = [Call_SetTimeout request1, Call_NewConn (request1\<lparr>Context := ctx\<rparr>)];
               deferred = (if cancel then [Call_cancel] else [])
           in case conn of
                None \<Rightarrow> (Returned, called @ deferred, w1)
              | Some connCloser \<Rightarrow>
                  (case timeoutErr of
                     Some e \<Rightarrow>
                       (Returned, called @ [Call_Close (Some e)] @ deferred,
                        snd (Close connCloser (Some e) w1))
                   | None \<Rightarrow>
                       (case implementation h ctx connCloser w1 of
                          (Panic, w') \<Rightarrow>
                            (Panicked, called @ [Call_implementation ctx] @ deferred, w')
                        | (Return err, w') \<Rightarrow>
                            (Returned,
                             called @ [Call_implementation ctx, Call_Close err] @ deferred,
                             snd (Close connCloser err w')))))"
      unfolding ServeHTTP_stream [where canon = canon and request = request,
          OF assms(1) assms(2) sel r1 st refl nc]
      by (cases timeoutErr; cases conn)
         (simp_all add: Let_def same_context split: prod.splits outcome.splits)
  qed
  from found some none accept sorted order served show ?thesis by blast
qed
theorem C4_protocol_selection_witness:
  "select_protocolHandler ''application/grpc''
       (protocolHandlers (example_handler StreamTypeUnary succeeding)) = Some grpc_adapter \<and>
   ''application/grpc'' \<notin> ContentTypes connect_adapter \<and>
   ServeHTTP id (example_handler StreamTypeUnary succeeding)
       (example_request ''POST'' 1 ''application/grpc'') start_world
     = ServeHTTP id ((example_handler StreamTypeUnary succeeding)\<lparr>protocolHandlers := [grpc_adapter]\<rparr>)
         (example_request ''POST'' 1 ''application/grpc'') start_world \<and>
   ServeHTTP id (example_handler StreamTypeUnary succeeding)
       (example_request ''POST'' 1 ''application/unknown'') start_world
     = (Returned, [],
        start_world\<lparr>writer :=
          \<lparr>rw_Header = [''Accept-Post'' \<mapsto>
               [''application/grpc, application/grpc+proto, application/json, application/proto'']],
           rw_status = [415]\<rparr>\<rparr>) \<and>
   sorted (supported_types [connect_adapter, grpc_adapter]) \<and>
   set (supported_types [connect_adapter, grpc_adapter])
     = {''application/grpc'', ''application/grpc+proto'', ''application/json'', ''application/proto''} \<and>
   SetTimeout grpc_adapter (example_request ''POST'' 1 ''application/grpc'')
     = (derived, True, None) \<and>
   NewConn grpc_adapter ((example_request ''POST'' 1 ''application/grpc'')\<lparr>Context := derived\<rparr>)
       start_world = (Some ping_conn, start_world) \<and>
   ServeHTTP id (example_handler StreamTypeUnary succeeding)
       (example_request ''POST'' 1 ''application/grpc'') start_world
     = (Returned,
        [Call_SetTimeout (example_request ''POST'' 1 ''application/grpc''),
         Call_NewConn ((example_request ''POST'' 1 ''application/grpc'')\<lparr>Context := derived\<rparr>),
         Call_implementation derived, Call_Close None, Call_cancel],
        start_world)"
proof -
  let ?h = "example_handler StreamTypeUnary succeeding"
  let ?grpc = "example_request ''POST'' 1 ''application/grpc''"
  let ?unknown = "example_request ''POST'' 1 ''application/unknown''"
  have gate: "\<not> (is_bidi ?h \<and> ProtoMajor ?grpc < 2)" "\<not> (is_bidi ?h \<and> ProtoMajor ?unknown < 2)"
    by (simp_all add: example_handler_def StreamTypeUnary_def StreamTypeBidi_def
        StreamTypeClient_def StreamTypeServer_def)
  have post: "Method ?grpc = ''POST''" "Method ?unknown = ''POST''"
    by (simp_all add: example_request_def)
  have ct: "''application/grpc'' = id (header_Get (Header ?grpc) ''Content-Type'')"
    "''application/unknown'' = id (header_Get (Header ?unknown) ''Content-Type'')"
    by (simp_all add: example_request_def header_Get_def)
  have hs: "protocolHandlers ?h = [connect_adapter, grpc_adapter]"
    "acceptPost ?h
       = ''application/grpc, application/grpc+proto, application/json, application/proto''"
    by (simp_all add: example_handler_def)
  have types: "ContentTypes connect_adapter = {''application/json'', ''application/proto''}"
    "ContentTypes grpc_adapter = {''application/grpc'', ''application/grpc+proto''}"
    by (simp_all add: connect_adapter_def grpc_adapter_def)
  have sel: "select_protocolHandler ''application/grpc'' (protocolHandlers ?h) = Some grpc_adapter"
    by (simp add: hs types)
  have miss: "\<forall>q \<in> set (protocolHandlers ?h). ''application/unknown'' \<notin> ContentTypes q"
    by (simp add: hs types)
  have fin: "\<forall>q \<in> set [connect_adapter, grpc_adapter]. finite (ContentTypes q)"
    by (simp add: types)
  have w: "writer start_world = \<lparr>rw_Header = Map.empty, rw_status = []\<rparr>"
    by (simp add: start_world_def)
  note found = C4_protocol_selection
    [where canon = id and request = "?grpc" and h = "?h" and p = grpc_adapter
       and w = start_world and hs = "[connect_adapter, grpc_adapter]"
       and ?ctx0.0 = derived and cancel = True and timeoutErr = None
       and conn = "Some ping_conn" and ?w1.0 = start_world,
     OF gate(1) post(1) ct(1)]
  note none = C4_protocol_selection
    [where canon = id and request = "?unknown" and h = "?h" and w = start_world,
     OF gate(2) post(2) ct(2)]
  have a: "ServeHTTP id ?h ?grpc start_world
     = ServeHTTP id (?h\<lparr>protocolHandlers := [grpc_adapter]\<rparr>) ?grpc start_world"
    using found [THEN conjunct1] sel by blast
  have b: "ServeHTTP id ?h ?unknown start_world
     = (Returned, [],
        start_world\<lparr>writer :=
          \<lparr>rw_Header = [''Accept-Post'' \<mapsto>
               [''application/grpc, application/grpc+proto, application/json, application/proto'']],
           rw_status = [415]\<rparr>\<rparr>)"
    using none [THEN conjunct2, THEN conjunct2, THEN conjunct1] miss by (simp add: hs w)
  have c: "sorted (supported_types [connect_adapter, grpc_adapter]) \<and>
    set (supported_types [connect_adapter, grpc_adapter])
     = {''application/grpc'', ''application/grpc+proto'', ''application/json'', ''application/proto''}"
    using found [THEN conjunct2, THEN conjunct2, THEN conjunct2, THEN conjunct2, THEN conjunct1]
      fin by (auto simp: types)
  have d: "''application/grpc'' \<notin> ContentTypes connect_adapter"
    by (simp add: types)
  have same: "?grpc\<lparr>Header := (Header ?grpc)(''Content-Type'' \<mapsto> [''application/grpc''])\<rparr>
      = ?grpc"
    by (simp add: example_request_def)
  have st: "SetTimeout grpc_adapter ?grpc = (derived, True, None)"
    by (simp add: grpc_adapter_def)
  have nc: "NewConn grpc_adapter (?grpc\<lparr>Context := derived\<rparr>) start_world
      = (Some ping_conn, start_world)"
    by (simp add: grpc_adapter_def)
  have impl: "implementation ?h derived ping_conn start_world = (Return None, start_world)"
    by (simp add: example_handler_def succeeding_def)
  have closed: "snd (Close ping_conn None start_world) = start_world"
    by (simp add: ping_conn_def)
  have e: "ServeHTTP id ?h ?grpc start_world
     = (Returned,
        [Call_SetTimeout ?grpc, Call_NewConn (?grpc\<lparr>Context := derived\<rparr>),
         Call_implementation derived, Call_Close None, Call_cancel],
        start_world)"
    using found [THEN conjunct2, THEN conjunct2, THEN conjunct2, THEN conjunct2, THEN conjunct2,
        THEN conjunct2, THEN conjunct2] sel st nc
    by (simp add: same impl closed Let_def)
  from sel a b c d st nc e show ?thesis by blast
qed

text \<open>
  C1, as stated, on a handler whose implementation panics: the stream was constructed,
  the panic leaves \<^verbatim>\<open>ServeHTTP\<close> through the deferred cancel, and \<^verbatim>\<open>Close\<close> is not invoked
  at all.
\<close>

theorem C1_close_once_counterexample:
  "fst (NewConn grpc_adapter
          ((example_request ''POST'' 2 ''application/grpc'')\<lparr>Context := derived\<rparr>) start_world)
     = Some ping_conn \<and>
   fst (ServeHTTP id (example_handler StreamTypeUnary panicking)
          (example_request ''POST'' 2 ''application/grpc'') start_world) = Panicked \<and>
   implementation_calls (fst (snd (ServeHTTP id (example_handler StreamTypeUnary panicking)
          (example_request ''POST'' 2 ''application/grpc'') start_world))) = [derived] \<and>
   closes (fst (snd (ServeHTTP id (example_handler StreamTypeUnary panicking)
          (example_request ''POST'' 2 ''application/grpc'') start_world))) = []"
  by (simp add: ServeHTTP_def example_handler_def example_request_def header_Get_def
      StreamTypeUnary_def StreamTypeBidi_def StreamTypeClient_def StreamTypeServer_def
      MethodPost_def connect_adapter_def grpc_adapter_def panicking_def Let_def)

text \<open>
  C1, amended: for every stream that \<^verbatim>\<open>NewConn\<close> constructed, \<^verbatim>\<open>ServeHTTP\<close> invokes its
  \<^verbatim>\<open>Close\<close> exactly once when it ends by returning: with the timeout-parse error when
  there is one (the implementation is then not called), and otherwise with whatever the
  implementation returned, nil or an error, after the implementation's effects. When the
  implementation panics, \<^verbatim>\<open>ServeHTTP\<close> does not invoke \<^verbatim>\<open>Close\<close>: the panic passes
  through it. When \<^verbatim>\<open>NewConn\<close> constructs no stream, nothing is closed. On each of
  these ways out the calls are exactly the ones listed, and a non-nil cancel handle is
  invoked once, as the last call, also after the panic.
\<close>

theorem C1_close_once_amended:
  assumes "\<not> (is_bidi h \<and> ProtoMajor request < 2)" "Method request = ''POST''"
    and "select_protocolHandler (canon (header_Get (Header request) ''Content-Type''))
           (protocolHandlers h) = Some p"
    and "request1 = request\<lparr>Header := (Header request)(''Content-Type'' \<mapsto>
           [canon (header_Get (Header request) ''Content-Type'')])\<rparr>"
    and "SetTimeout p request1 = (ctx0, cancel, timeoutErr)"
    and "ctx = (if timeoutErr \<noteq> None then Context request else ctx0)"
    and "NewConn p (request1\<lparr>Context := ctx\<rparr>) w = (conn, w1)"
    and "ServeHTTP canon h request w = (how, calls, w2)"
  shows
    "(conn = Some connCloser \<and> timeoutErr = Some e \<longrightarrow>
        how = Returned \<and> closes calls = [Some e] \<and> implementation_calls calls = [] \<and>
        w2 = snd (Close connCloser (Some e) w1) \<and>
        calls = [Call_SetTimeout request1, Call_NewConn (request1\<lparr>Context := ctx\<rparr>),
                 Call_Close (Some e)] @ (if cancel then [Call_cancel] else [])) \<and>
     (conn = Some connCloser \<and> timeoutErr = None \<and>
      implementation h ctx0 connCloser w1 = (Return err, w') \<longrightarrow>
        how = Returned \<and> closes calls = [err] \<and> implementation_calls calls = [ctx0] \<and>
        w2 = snd (Close connCloser err w') \<and>
        calls = [Call_SetTimeout request1, Call_NewConn (request1\<lparr>Context := ctx\<rparr>),
                 Call_implementation ctx0, Call_Close err]
                @ (if cancel then [Call_cancel] else [])) \<and>
     (conn = Some connCloser \<and> timeoutErr = None \<and>
      implementation h ctx0 connCloser w1 = (Panic, w') \<longrightarrow>
        how = Panicked \<and> closes calls = [] \<and> implementation_calls calls = [ctx0] \<and> w2 = w' \<and>
        calls = [Call_SetTimeout request1, Call_NewConn (request1\<lparr>Context := ctx\<rparr>),
                 Call_implementation ctx0] @ (if cancel then [Call_cancel] else [])) \<and>
     (conn = None \<longrightarrow>
        how = Returned \<and> closes calls = [] \<and> implementation_calls calls = [] \<and> w2 = w1 \<and>
        calls = [Call_SetTimeout request1, Call_NewConn (request1\<lparr>Context := ctx\<rparr>)]
                @ (if cancel then [Call_cancel] else [])) \<and>
     cancel_calls calls = (if cancel then 1 else 0) \<and>
     (cancel \<longrightarrow> last calls = Call_cancel)"
proof -
  note run = ServeHTTP_stream [where canon = canon and request = request,
      OF assms(1) assms(2) assms(3) assms(4) assms(5) assms(6) assms(7)]
  have timeout: "conn = Some connCloser \<and> timeoutErr = Some e \<longrightarrow>
        how = Returned \<and> closes calls = [Some e] \<and> implementation_calls calls = [] \<and>
        w2 = snd (Close connCloser (Some e) w1) \<and>
        calls = [Call_SetTimeout request1, Call_NewConn (request1\<lparr>Context := ctx\<rparr>),
                 Call_Close (Some e)] @ (if cancel then [Call_cancel] else [])"
    using run assms(8) by (cases cancel) (auto simp: Let_def)
  have returned: "conn = Some connCloser \<and> timeoutErr = None \<and>
      implementation h ctx0 connCloser w1 = (Return err, w') \<longrightarrow>
        how = Returned \<and> closes calls = [err] \<and> implementation_calls calls = [ctx0] \<and>
        w2 = snd (Close connCloser err w') \<and>
        calls = [Call_SetTimeout request1, Call_NewConn (request1\<lparr>Context := ctx\<rparr>),
                 Call_implementation ctx0, Call_Close err]
                @ (if cancel then [Call_cancel] else [])"
    using run assms(8) assms(6) by (cases cancel) (auto simp: Let_def)
  have panicked: "conn = Some connCloser \<and> timeoutErr = None \<and>
      implementation h ctx0 connCloser w1 = (Panic, w') \<longrightarrow>
        how = Panicked \<and> closes calls = [] \<and> implementation_calls calls = [ctx0] \<and> w2 = w' \<and>
        calls = [Call_SetTimeout request1, Call_NewConn (request1\<lparr>Context := ctx\<rparr>),
                 Call_implementation ctx0] @ (if cancel then [Call_cancel] else [])"
    using run assms(8) assms(6) by (cases cancel) (auto simp: Let_def)
  have refused: "conn = None \<longrightarrow>
        how = Returned \<and> closes calls = [] \<and> implementation_calls calls = [] \<and> w2 = w1 \<and>
        calls = [Call_SetTimeout request1, Call_NewConn (request1\<lparr>Context := ctx\<rparr>)]
                @ (if cancel then [Call_cancel] else [])"
    using run assms(8) by (cases cancel) (auto simp: Let_def)
  have calls: "calls = fst (snd (ServeHTTP canon h request w))"
    using assms(8) by simp
  have cancels: "cancel_calls calls = (if cancel then 1 else 0)"
    unfolding calls run
    by (cases conn; cases timeoutErr; cases "implementation h ctx (the conn) w1";
        cases "fst (implementation h ctx (the conn) w1)")
       (simp_all add: Let_def)
  have last: "cancel \<longrightarrow> last calls = Call_cancel"
    unfolding calls run
    by (cases conn; cases timeoutErr; cases "implementation h ctx (the conn) w1";
        cases "fst (implementation h ctx (the conn) w1)")
       (simp_all add: Let_def)
  from timeout returned panicked refused cancels last show ?thesis by blast
qed

theorem C1_close_once_amended_witness:
  "closes (fst (snd (ServeHTTP id (example_handler StreamTypeUnary succeeding)
      (example_request ''POST'' 2 ''application/json'') start_world)))
     = [Some (errorf CodeInvalidArgument ''bad timeout'')] \<and>
   closes (fst (snd (ServeHTTP id (example_handler StreamTypeUnary failing)
      (example_request ''POST'' 2 ''application/grpc'') start_world)))
     = [Some (errorf CodeUnavailable ''try later'')] \<and>
   closes (fst (snd (ServeHTTP id (example_handler StreamTypeUnary succeeding)
      (example_request ''POST'' 2 ''application/grpc'') start_world)))
     = [None] \<and>
   closes (fst (snd (ServeHTTP id (example_handler StreamTypeUnary panicking)
      (example_request ''POST'' 2 ''application/grpc'') start_world)))
     = [] \<and>
   fst (snd (ServeHTTP id (example_handler StreamTypeUnary panicking)
      (example_request ''POST'' 2 ''application/grpc'') start_world))
     = [Call_SetTimeout (example_request ''POST'' 2 ''application/grpc''),
        Call_NewConn ((example_request ''POST'' 2 ''application/grpc'')\<lparr>Context := derived\<rparr>),
        Call_implementation derived, Call_cancel] \<and>
   cancel_calls (fst (snd (ServeHTTP id (example_handler StreamTypeUnary panicking)
      (example_request ''POST'' 2 ''application/grpc'') start_world))) = 1"
proof -
  let ?json = "example_request ''POST'' 2 ''application/json''"
  let ?grpc = "example_request ''POST'' 2 ''application/grpc''"
  have json1: "?json = ?json\<lparr>Header := (Header ?json)(''Content-Type'' \<mapsto>
      [id (header_Get (Header ?json) ''Content-Type'')])\<rparr>"
    by (simp add: example_request_def header_Get_def)
  have grpc1: "?grpc = ?grpc\<lparr>Header := (Header ?grpc)(''Content-Type'' \<mapsto>
      [id (header_Get (Header ?grpc) ''Content-Type'')])\<rparr>"
    by (simp add: example_request_def header_Get_def)
  have gate: "\<And>impl r. \<not> (is_bidi (example_handler StreamTypeUnary impl) \<and> ProtoMajor r < 2)"
    by (simp add: example_handler_def StreamTypeUnary_def StreamTypeBidi_def
        StreamTypeClient_def StreamTypeServer_def)
  have post: "Method ?json = ''POST''" "Method ?grpc = ''POST''"
    by (simp_all add: example_request_def)
  have sel_json: "\<And>impl. select_protocolHandler (id (header_Get (Header ?json) ''Content-Type''))
      (protocolHandlers (example_handler StreamTypeUnary impl)) = Some connect_adapter"
    by (simp add: example_handler_def example_request_def header_Get_def connect_adapter_def)
  have sel_grpc: "\<And>impl. select_protocolHandler (id (header_Get (Header ?grpc) ''Content-Type''))
      (protocolHandlers (example_handler StreamTypeUnary impl)) = Some grpc_adapter"
    by (simp add: example_handler_def example_request_def header_Get_def connect_adapter_def
        grpc_adapter_def)
  have st_json: "SetTimeout connect_adapter ?json
      = (derived, True, Some (errorf CodeInvalidArgument ''bad timeout''))"
    by (simp add: connect_adapter_def)
  have st_grpc: "SetTimeout grpc_adapter ?grpc = (derived, True, None)"
    by (simp add: grpc_adapter_def)
  have ctx_json: "Context ?json
      = (if Some (errorf CodeInvalidArgument ''bad timeout'') \<noteq> None then Context ?json
         else derived)"
    by simp
  have ctx_grpc: "derived = (if (None :: goerror option) \<noteq> None then Context ?grpc else derived)"
    by simp
  have nc_json: "NewConn connect_adapter (?json\<lparr>Context := Context ?json\<rparr>) start_world
      = (Some ping_conn, start_world)"
    by (simp add: connect_adapter_def)
  have nc_grpc: "NewConn grpc_adapter (?grpc\<lparr>Context := derived\<rparr>) start_world
      = (Some ping_conn, start_world)"
    by (simp add: grpc_adapter_def)
  have res: "\<And>x. x = (fst x, fst (snd x), snd (snd x))"
    by simp
  have impl: "\<And>c k v. implementation (example_handler StreamTypeUnary failing) c k v
        = (Return (Some (errorf CodeUnavailable ''try later'')), v)"
    "\<And>c k v. implementation (example_handler StreamTypeUnary succeeding) c k v = (Return None, v)"
    "\<And>c k v. implementation (example_handler StreamTypeUnary panicking) c k v = (Panic, v)"
    by (simp_all add: example_handler_def failing_def succeeding_def panicking_def)
  have timeout: "closes (fst (snd (ServeHTTP id (example_handler StreamTypeUnary succeeding)
      ?json start_world))) = [Some (errorf CodeInvalidArgument ''bad timeout'')]"
    using C1_close_once_amended
      [where canon = id and request = "?json" and connCloser = ping_conn
         and e = "errorf CodeInvalidArgument ''bad timeout''",
       OF gate post(1) sel_json json1 st_json ctx_json nc_json res]
    by simp
  have failed: "closes (fst (snd (ServeHTTP id (example_handler StreamTypeUnary failing)
      ?grpc start_world))) = [Some (errorf CodeUnavailable ''try later'')]"
    using C1_close_once_amended
      [where canon = id and request = "?grpc" and connCloser = ping_conn
         and err = "Some (errorf CodeUnavailable ''try later'')" and w' = start_world,
       OF gate post(2) sel_grpc grpc1 st_grpc ctx_grpc nc_grpc res]
      impl(1)
    by simp
  have succeeded: "closes (fst (snd (ServeHTTP id (example_handler StreamTypeUnary succeeding)
      ?grpc start_world))) = [None]"
    using C1_close_once_amended
      [where canon = id and request = "?grpc" and connCloser = ping_conn
         and err = None and w' = start_world,
       OF gate post(2) sel_grpc grpc1 st_grpc ctx_grpc nc_grpc res]
      impl(2)
    by simp
  note panic = C1_close_once_amended
      [where canon = id and request = "?grpc" and connCloser = ping_conn
         and w' = start_world and h = "example_handler StreamTypeUnary panicking",
       OF gate post(2) sel_grpc grpc1 st_grpc ctx_grpc nc_grpc res]
  have panicked: "closes (fst (snd (ServeHTTP id (example_handler StreamTypeUnary panicking)
      ?grpc start_world))) = [] \<and>
    fst (snd (ServeHTTP id (example_handler StreamTypeUnary panicking) ?grpc start_world))
     = [Call_SetTimeout ?grpc, Call_NewConn (?grpc\<lparr>Context := derived\<rparr>),
        Call_implementation derived, Call_cancel]"
    using panic [THEN conjunct2, THEN conjunct2, THEN conjunct1] impl(3)
    by simp
  have cancelled_once: "cancel_calls (fst (snd (ServeHTTP id
      (example_handler StreamTypeUnary panicking) ?grpc start_world))) = 1"
    using panic [THEN conjunct2, THEN conjunct2, THEN conjunct2, THEN conjunct2, THEN conjunct1]
    by simp
  from timeout failed succeeded panicked cancelled_once show ?thesis by blast
qed

lemma ServeHTTP_implementation_irrelevant:
  assumes "\<not> (is_bidi h \<and> ProtoMajor request < 2)" "Method request = ''POST''"
    and "select_protocolHandler (canon (header_Get (Header request) ''Content-Type''))
           (protocolHandlers h) = Some p"
    and "request1 = request\<lparr>Header := (Header request)(''Content-Type'' \<mapsto>
           [canon (header_Get (Header request) ''Content-Type'')])\<rparr>"
    and "SetTimeout p request1 = (ctx0, cancel, Some e)"
  shows "ServeHTTP canon (h\<lparr>implementation := f\<rparr>) request w = ServeHTTP canon h request w"
proof -
  obtain conn w1 where nc: "NewConn p (request1\<lparr>Context := Context request\<rparr>) w = (conn, w1)"
    by (cases "NewConn p (request1\<lparr>Context := Context request\<rparr>) w") auto
  have ctx: "Context request = (if Some e \<noteq> None then Context request else ctx0)"
    by simp
  have gate': "\<not> (is_bidi (h\<lparr>implementation := f\<rparr>) \<and> ProtoMajor request < 2)"
    using assms(1) by simp
  have sel': "select_protocolHandler (canon (header_Get (Header request) ''Content-Type''))
           (protocolHandlers (h\<lparr>implementation := f\<rparr>)) = Some p"
    using assms(3) by simp
  show ?thesis
    unfolding
      ServeHTTP_stream [where canon = canon and request = request,
        OF assms(1) assms(2) assms(3) assms(4) assms(5) ctx nc]
      ServeHTTP_stream [where canon = canon and request = request,
        OF gate' assms(2) sel' assms(4) assms(5) ctx nc]
    by (simp add: Let_def split: option.splits)
qed

text \<open>
  C2: when the adapter's \<^verbatim>\<open>SetTimeout\<close> returns an error, \<^verbatim>\<open>ServeHTTP\<close> calls \<^verbatim>\<open>NewConn\<close>
  with the request bound to the original request context, not the derived one. If the
  stream is constructed, its \<^verbatim>\<open>Close\<close> is called once, with that error, the
  implementation is not called (the whole result is the same for any implementation),
  and \<^verbatim>\<open>ServeHTTP\<close> returns in the world \<^verbatim>\<open>Close\<close> left. If no stream is constructed it
  returns at once. In both cases a non-nil cancel handle is invoked, once and last, and
  a nil one is not.
\<close>

theorem C2_timeout_error:
  assumes "\<not> (is_bidi h \<and> ProtoMajor request < 2)" "Method request = ''POST''"
    and "select_protocolHandler (canon (header_Get (Header request) ''Content-Type''))
           (protocolHandlers h) = Some p"
    and "request1 = request\<lparr>Header := (Header request)(''Content-Type'' \<mapsto>
           [canon (header_Get (Header request) ''Content-Type'')])\<rparr>"
    and "SetTimeout p request1 = (ctx0, cancel, Some e)"
    and "NewConn p (request1\<lparr>Context := Context request\<rparr>) w = (conn, w1)"
  shows
    "(conn = Some connCloser \<longrightarrow>
        ServeHTTP canon h request w =
          (Returned,
           [Call_SetTimeout request1, Call_NewConn (request1\<lparr>Context := Context request\<rparr>),
            Call_Close (Some e)] @ (if cancel then [Call_cancel] else []),
           snd (Close connCloser (Some e) w1))) \<and>
     (conn = None \<longrightarrow>
        ServeHTTP canon h request w =
          (Returned,
           [Call_SetTimeout request1, Call_NewConn (request1\<lparr>Context := Context request\<rparr>)]
             @ (if cancel then [Call_cancel] else []),
           w1)) \<and>
     implementation_calls (fst (snd (ServeHTTP canon h request w))) = [] \<and>
     ServeHTTP canon (h\<lparr>implementation := f\<rparr>) request w = ServeHTTP canon h request w \<and>
     cancel_calls (fst (snd (ServeHTTP canon h request w))) = (if cancel then 1 else 0) \<and>
     (cancel \<longrightarrow> last (fst (snd (ServeHTTP canon h request w))) = Call_cancel)"
proof -
  have ctx: "Context request = (if Some e \<noteq> None then Context request else ctx0)"
    by simp
  note run = ServeHTTP_stream [where canon = canon and request = request,
      OF assms(1) assms(2) assms(3) assms(4) assms(5) ctx assms(6)]
  have constructed: "conn = Some connCloser \<longrightarrow>
        ServeHTTP canon h request w =
          (Returned,
           [Call_SetTimeout request1, Call_NewConn (request1\<lparr>Context := Context request\<rparr>),
            Call_Close (Some e)] @ (if cancel then [Call_cancel] else []),
           snd (Close connCloser (Some e) w1))"
    unfolding run by (simp add: Let_def)
  have refused: "conn = None \<longrightarrow>
        ServeHTTP canon h request w =
          (Returned,
           [Call_SetTimeout request1, Call_NewConn (request1\<lparr>Context := Context request\<rparr>)]
             @ (if cancel then [Call_cancel] else []),
           w1)"
    unfolding run by (simp add: Let_def)
  have not_called: "implementation_calls (fst (snd (ServeHTTP canon h request w))) = []"
    unfolding run by (cases conn) (simp_all add: Let_def)
  have any: "ServeHTTP canon (h\<lparr>implementation := f\<rparr>) request w = ServeHTTP canon h request w"
    using assms(1-5) by (rule ServeHTTP_implementation_irrelevant)
  have cancels: "cancel_calls (fst (snd (ServeHTTP canon h request w))) = (if cancel then 1 else 0)"
    unfolding run by (cases conn) (simp_all add: Let_def)
  have last: "cancel \<longrightarrow> last (fst (snd (ServeHTTP canon h request w))) = Call_cancel"
    unfolding run by (cases conn) (simp_all add: Let_def)
  from constructed refused not_called any cancels last show ?thesis by blast
qed

theorem C2_timeout_error_witness:
  "SetTimeout connect_adapter (example_request ''POST'' 2 ''application/json'')
     = (derived, True, Some (errorf CodeInvalidArgument ''bad timeout'')) \<and>
   ServeHTTP id (example_handler StreamTypeUnary succeeding)
       (example_request ''POST'' 2 ''application/json'') start_world
     = (Returned,
        [Call_SetTimeout (example_request ''POST'' 2 ''application/json''),
         Call_NewConn (example_request ''POST'' 2 ''application/json''),
         Call_Close (Some (errorf CodeInvalidArgument ''bad timeout'')),
         Call_cancel],
        start_world) \<and>
   Context (example_request ''POST'' 2 ''application/json'') = background \<and>
   ServeHTTP id (example_handler StreamTypeUnary panicking)
       (example_request ''POST'' 2 ''application/json'') start_world
     = ServeHTTP id (example_handler StreamTypeUnary succeeding)
       (example_request ''POST'' 2 ''application/json'') start_world"
proof -
  let ?json = "example_request ''POST'' 2 ''application/json''"
  let ?h = "example_handler StreamTypeUnary succeeding"
  have same: "?json\<lparr>Header := (Header ?json)(''Content-Type'' \<mapsto>
      [id (header_Get (Header ?json) ''Content-Type'')])\<rparr> = ?json"
    by (simp add: example_request_def header_Get_def)
  have gate: "\<not> (is_bidi ?h \<and> ProtoMajor ?json < 2)"
    by (simp add: example_handler_def StreamTypeUnary_def StreamTypeBidi_def
        StreamTypeClient_def StreamTypeServer_def)
  have post: "Method ?json = ''POST''"
    by (simp add: example_request_def)
  have sel: "select_protocolHandler (id (header_Get (Header ?json) ''Content-Type''))
      (protocolHandlers ?h) = Some connect_adapter"
    by (simp add: example_handler_def example_request_def header_Get_def connect_adapter_def)
  have st: "SetTimeout connect_adapter ?json
      = (derived, True, Some (errorf CodeInvalidArgument ''bad timeout''))"
    by (simp add: connect_adapter_def)
  have nc: "NewConn connect_adapter (?json\<lparr>Context := Context ?json\<rparr>) start_world
      = (Some ping_conn, start_world)"
    by (simp add: connect_adapter_def)
  have closed: "snd (Close ping_conn (Some (errorf CodeInvalidArgument ''bad timeout'')) start_world)
      = start_world"
    by (simp add: ping_conn_def)
  have bg: "Context ?json = background"
    by (simp add: example_request_def)
  have swap: "?h\<lparr>implementation := panicking\<rparr> = example_handler StreamTypeUnary panicking"
    by (simp add: example_handler_def)
  note inst = C2_timeout_error
    [where canon = id and request = "?json" and h = "?h" and connCloser = ping_conn
       and f = panicking,
     OF gate post sel same [symmetric] st nc]
  have run: "ServeHTTP id ?h ?json start_world
     = (Returned,
        [Call_SetTimeout ?json, Call_NewConn ?json,
         Call_Close (Some (errorf CodeInvalidArgument ''bad timeout'')), Call_cancel],
        start_world)"
    using inst [THEN conjunct1] closed by simp
  have indep: "ServeHTTP id (example_handler StreamTypeUnary panicking) ?json start_world
     = ServeHTTP id ?h ?json start_world"
    using inst [THEN conjunct2, THEN conjunct2, THEN conjunct2, THEN conjunct1] swap by simp
  from st run bg indep show ?thesis by blast
qed

section \<open>Claims about the unary handler\<close>

lemma untyped_cancelled:
  "ctx_Err ctx = Some err \<Longrightarrow> untyped Req unary ctx request w = (Return (None, Some err), w)"
  by (simp add: untyped_def)

lemma untyped_mismatch:
  assumes "ctx_Err ctx = None" and "request = None \<or> (\<exists>r. request = Some r \<and> req_T r \<noteq> Req)"
  shows "untyped Req unary ctx request w
       = (Return (None, Some (NewError CodeInternal
            (errors_New (''unexpected handler request type '' @ format_T request)))), w)"
  using assms by (auto simp: untyped_def errorf_def)

lemma untyped_typed:
  "ctx_Err ctx = None \<Longrightarrow> req_T r = Req \<Longrightarrow> untyped Req unary ctx (Some r) w = unary ctx r w"
  by (simp add: untyped_def)

lemma NewUnaryHandler_implementation:
  "implementation (NewUnaryHandler Req NewHandler render procedure unary options)
     = unary_implementation Req
         (case Interceptor (newHandlerConfig procedure options) of
            None \<Rightarrow> untyped Req unary
          | Some interceptor \<Rightarrow> WrapUnary interceptor (untyped Req unary))"
  by (simp add: NewUnaryHandler_def Let_def)

lemma unary_implementation_error:
  assumes "hc_Receive conn w = (Inr msg, w1)"
    and "wrapped ctx
           (Some \<lparr>req_T = Req, req_Msg = msg, req_spec = hc_Spec conn, req_peer = hc_Peer conn,
                  req_header = hc_RequestHeader conn\<rparr>) w1
         = (Return (response, Some err), w2)"
  shows "unary_implementation Req wrapped ctx conn w = (Return (Some err), w2)"
  using assms by (cases response) (simp_all add: unary_implementation_def)

lemma unary_implementation_receive_error:
  assumes "hc_Receive conn w = (Inl err, w1)"
  shows "unary_implementation Req wrapped ctx conn w = (Return (Some err), w1)"
  using assms by (simp add: unary_implementation_def)

text \<open>
  C8, as stated, on a handler with a counting interceptor and an already-cancelled
  context: the implementation receives the message and calls the wrapped function, so
  the interceptor runs (the counter is 1 afterwards); only the user function does not.
\<close>

theorem C8_unary_handler_counterexample:
  "ctx_Err cancelled = Some context_Canceled \<and>
   implementation
       (NewUnaryHandler ''Req'' example_NewHandler example_render ''/acme.Foo/Bar'' echo_unary
          [WithInterceptor counting_interceptor])
       cancelled ping_conn start_world
     = (Return (Some context_Canceled), start_world\<lparr>net := 1\<rparr>)"
  by (simp add: NewUnaryHandler_def newHandlerConfig_def WithInterceptor_def
      counting_interceptor_def unary_implementation_def untyped_def ping_conn_def
      cancelled_def start_world_def Let_def)

text \<open>
  C8, amended: in \<^verbatim>\<open>NewUnaryHandler\<close> the untyped unary adapter is wrapped by the
  interceptor's unary variant when one is configured, and the streaming implementation
  calls the wrapped function after receiving the request message. The check of the
  context is the first step of the untyped adapter itself, inside the wrapping: invoked
  with a cancelled context the adapter returns the context's error without calling the
  user function, so without an interceptor the implementation returns that error after
  the receive, and with one the interceptor runs first and decides. Invoked with a
  context that is not cancelled and a request that is not a \<^verbatim>\<open>*Request[Req]\<close>, the adapter
  returns an error of code \<open>Internal\<close> without calling the user function; on a
  \<^verbatim>\<open>*Request[Req]\<close> it calls the user function.
\<close>

theorem C8_unary_handler_amended:
  "(Interceptor (newHandlerConfig procedure options) = Some interceptor \<longrightarrow>
      implementation (NewUnaryHandler Req NewHandler render procedure unary options)
        = unary_implementation Req (WrapUnary interceptor (untyped Req unary))) \<and>
   (Interceptor (newHandlerConfig procedure options) = None \<longrightarrow>
      implementation (NewUnaryHandler Req NewHandler render procedure unary options)
        = unary_implementation Req (untyped Req unary)) \<and>
   (ctx_Err ctx = Some err \<longrightarrow>
      untyped Req unary ctx request w = (Return (None, Some err), w)) \<and>
   (ctx_Err ctx = None \<and> (request = None \<or> (\<exists>r. request = Some r \<and> req_T r \<noteq> Req)) \<longrightarrow>
      untyped Req unary ctx request w
        = (Return (None, Some (NewError CodeInternal
             (errors_New (''unexpected handler request type '' @ format_T request)))), w)) \<and>
   (ctx_Err ctx = None \<and> req_T typed = Req \<longrightarrow>
      untyped Req unary ctx (Some typed) w = unary ctx typed w) \<and>
   (Interceptor (newHandlerConfig procedure options) = None \<and> ctx_Err ctx = Some err \<and>
    hc_Receive conn w = (Inr msg, w1) \<longrightarrow>
      implementation (NewUnaryHandler Req NewHandler render procedure unary options) ctx conn w
        = (Return (Some err), w1)) \<and>
   (Interceptor (newHandlerConfig procedure options) = Some interceptor \<and>
    hc_Receive conn w = (Inr msg, w1) \<and>
    WrapUnary interceptor (untyped Req unary) ctx
      (Some \<lparr>req_T = Req, req_Msg = msg, req_spec = hc_Spec conn, req_peer = hc_Peer conn,
             req_header = hc_RequestHeader conn\<rparr>) w1
      = (Return (response, Some err), w2) \<longrightarrow>
      implementation (NewUnaryHandler Req NewHandler render procedure unary options) ctx conn w
        = (Return (Some err), w2))"
proof -
  let ?h = "NewUnaryHandler Req NewHandler render procedure unary options"
  let ?request = "\<lparr>req_T = Req, req_Msg = msg, req_spec = hc_Spec conn, req_peer = hc_Peer conn,
             req_header = hc_RequestHeader conn\<rparr>"
  have wrapped: "Interceptor (newHandlerConfig procedure options) = Some interceptor \<longrightarrow>
      implementation ?h = unary_implementation Req (WrapUnary interceptor (untyped Req unary))"
    by (simp add: NewUnaryHandler_implementation)
  have bare: "Interceptor (newHandlerConfig procedure options) = None \<longrightarrow>
      implementation ?h = unary_implementation Req (untyped Req unary)"
    by (simp add: NewUnaryHandler_implementation)
  have check: "ctx_Err ctx = Some err \<longrightarrow>
      untyped Req unary ctx request w = (Return (None, Some err), w)"
    by (simp add: untyped_cancelled)
  have mismatch: "ctx_Err ctx = None \<and> (request = None \<or> (\<exists>r. request = Some r \<and> req_T r \<noteq> Req))
      \<longrightarrow> untyped Req unary ctx request w
        = (Return (None, Some (NewError CodeInternal
             (errors_New (''unexpected handler request type '' @ format_T request)))), w)"
    using untyped_mismatch [of ctx request Req unary w] by blast
  have typed: "ctx_Err ctx = None \<and> req_T typed = Req \<longrightarrow>
      untyped Req unary ctx (Some typed) w = unary ctx typed w"
    by (simp add: untyped_typed)
  have outer_bare: "Interceptor (newHandlerConfig procedure options) = None \<and>
      ctx_Err ctx = Some err \<and> hc_Receive conn w = (Inr msg, w1) \<longrightarrow>
      implementation ?h ctx conn w = (Return (Some err), w1)"
  proof
    assume a: "Interceptor (newHandlerConfig procedure options) = None \<and>
      ctx_Err ctx = Some err \<and> hc_Receive conn w = (Inr msg, w1)"
    then have "untyped Req unary ctx (Some ?request) w1 = (Return (None, Some err), w1)"
      by (simp add: untyped_cancelled)
    with a have "unary_implementation Req (untyped Req unary) ctx conn w = (Return (Some err), w1)"
      by (intro unary_implementation_error [where response = None]) simp_all
    with a show "implementation ?h ctx conn w = (Return (Some err), w1)"
      by (simp add: NewUnaryHandler_implementation)
  qed
  have outer_wrapped: "Interceptor (newHandlerConfig procedure options) = Some interceptor \<and>
    hc_Receive conn w = (Inr msg, w1) \<and>
    WrapUnary interceptor (untyped Req unary) ctx (Some ?request) w1
      = (Return (response, Some err), w2) \<longrightarrow>
      implementation ?h ctx conn w = (Return (Some err), w2)"
  proof
    assume a: "Interceptor (newHandlerConfig procedure options) = Some interceptor \<and>
      hc_Receive conn w = (Inr msg, w1) \<and>
      WrapUnary interceptor (untyped Req unary) ctx (Some ?request) w1
        = (Return (response, Some err), w2)"
    then have recv: "hc_Receive conn w = (Inr msg, w1)"
      and call: "WrapUnary interceptor (untyped Req unary) ctx (Some ?request) w1
        = (Return (response, Some err), w2)"
      by blast+
    have "unary_implementation Req (WrapUnary interceptor (untyped Req unary)) ctx conn w
        = (Return (Some err), w2)"
      using recv call by (rule unary_implementation_error)
    with a show "implementation ?h ctx conn w = (Return (Some err), w2)"
      by (simp add: NewUnaryHandler_implementation)
  qed
  from wrapped bare check mismatch typed outer_bare outer_wrapped show ?thesis by blast
qed
theorem C8_unary_handler_amended_witness:
  "implementation
       (NewUnaryHandler ''Req'' example_NewHandler example_render ''/acme.Foo/Bar'' echo_unary
          [WithInterceptor counting_interceptor])
     = unary_implementation ''Req'' (WrapUnary counting_interceptor (untyped ''Req'' echo_unary)) \<and>
   implementation
       (NewUnaryHandler ''Req'' example_NewHandler example_render ''/acme.Foo/Bar'' echo_unary [])
     = unary_implementation ''Req'' (untyped ''Req'' echo_unary) \<and>
   untyped ''Req'' echo_unary cancelled (Some (NewRequest ''Req'' ''m'')) start_world
     = (Return (None, Some context_Canceled), start_world) \<and>
   untyped ''Req'' echo_unary background (Some (NewRequest ''Other'' ''m'')) start_world
     = (Return (None, Some (NewError CodeInternal
          (errors_New ''unexpected handler request type *connect.Request[Other]''))), start_world) \<and>
   untyped ''Req'' echo_unary background (Some (NewRequest ''Req'' ''m'')) start_world
     = echo_unary background (NewRequest ''Req'' ''m'') start_world \<and>
   implementation
       (NewUnaryHandler ''Req'' example_NewHandler example_render ''/acme.Foo/Bar'' echo_unary [])
       cancelled ping_conn start_world
     = (Return (Some context_Canceled), start_world) \<and>
   implementation
       (NewUnaryHandler ''Req'' example_NewHandler example_render ''/acme.Foo/Bar'' echo_unary
          [WithInterceptor counting_interceptor])
       cancelled ping_conn start_world
     = (Return (Some context_Canceled), start_world\<lparr>net := 1\<rparr>)"
proof -
  let ?with = "[WithInterceptor counting_interceptor]"
  let ?received = "\<lparr>req_T = ''Req'', req_Msg = ''ping'', req_spec = hc_Spec ping_conn,
      req_peer = hc_Peer ping_conn, req_header = hc_RequestHeader ping_conn\<rparr>"
  have configured: "Interceptor (newHandlerConfig ''/acme.Foo/Bar'' ?with) = Some counting_interceptor"
    by (simp add: newHandlerConfig_def WithInterceptor_def)
  have plain: "Interceptor (newHandlerConfig ''/acme.Foo/Bar''
      ([] :: (nat handlerConfig \<Rightarrow> nat handlerConfig) list)) = None"
    by (simp add: newHandlerConfig_def)
  have ctxs: "ctx_Err cancelled = Some context_Canceled" "ctx_Err background = None"
    by (simp_all add: cancelled_def background_def)
  have other: "Some (NewRequest ''Other'' ''m'') = None \<or>
      (\<exists>r. Some (NewRequest ''Other'' ''m'') = Some r \<and> req_T r \<noteq> ''Req'')"
    by (simp add: NewRequest_def)
  have fmt: "format_T (Some (NewRequest ''Other'' ''m'')) = ''*connect.Request[Other]''"
    by (simp add: format_T_def NewRequest_def)
  have same: "req_T (NewRequest ''Req'' ''m'') = ''Req''"
    by (simp add: NewRequest_def)
  have recv: "hc_Receive ping_conn start_world = (Inr ''ping'', start_world)"
    by (simp add: ping_conn_def)
  have counted: "WrapUnary counting_interceptor (untyped ''Req'' echo_unary) cancelled
      (Some ?received) start_world
      = (Return (None, Some context_Canceled), start_world\<lparr>net := 1\<rparr>)"
    by (simp add: counting_interceptor_def untyped_def cancelled_def start_world_def)
  note with_ic = C8_unary_handler_amended
    [where procedure = "''/acme.Foo/Bar''" and options = "?with" and Req = "''Req''"
       and interceptor = counting_interceptor and unary = echo_unary
       and NewHandler = example_NewHandler and render = example_render
       and ctx = cancelled and err = context_Canceled and w = start_world
       and request = "Some (NewRequest ''Req'' ''m'')" and conn = ping_conn
       and msg = "''ping''" and ?w1.0 = start_world and response = None
       and ?w2.0 = "start_world\<lparr>net := 1\<rparr>"]
  note without = C8_unary_handler_amended
    [where procedure = "''/acme.Foo/Bar''"
       and options = "[] :: (nat handlerConfig \<Rightarrow> nat handlerConfig) list"
       and Req = "''Req''" and unary = echo_unary
       and NewHandler = example_NewHandler and render = example_render
       and ctx = cancelled and err = context_Canceled and w = start_world
       and conn = ping_conn and msg = "''ping''" and ?w1.0 = start_world]
  note mismatch = C8_unary_handler_amended
    [where Req = "''Req''" and unary = echo_unary and ctx = background and w = start_world
       and request = "Some (NewRequest ''Other'' ''m'')" and typed = "NewRequest ''Req'' ''m''"]
  have a: "implementation
       (NewUnaryHandler ''Req'' example_NewHandler example_render ''/acme.Foo/Bar'' echo_unary ?with)
     = unary_implementation ''Req'' (WrapUnary counting_interceptor (untyped ''Req'' echo_unary))"
    using with_ic [THEN conjunct1] configured by blast
  have b: "implementation
       (NewUnaryHandler ''Req'' example_NewHandler example_render ''/acme.Foo/Bar'' echo_unary [])
     = unary_implementation ''Req'' (untyped ''Req'' echo_unary)"
    using without [THEN conjunct2, THEN conjunct1] plain by blast
  have c: "untyped ''Req'' echo_unary cancelled (Some (NewRequest ''Req'' ''m'')) start_world
     = (Return (None, Some context_Canceled), start_world)"
    using with_ic [THEN conjunct2, THEN conjunct2, THEN conjunct1] ctxs(1) by blast
  have d: "untyped ''Req'' echo_unary background (Some (NewRequest ''Other'' ''m'')) start_world
     = (Return (None, Some (NewError CodeInternal
          (errors_New ''unexpected handler request type *connect.Request[Other]''))), start_world)"
    using mismatch [THEN conjunct2, THEN conjunct2, THEN conjunct2, THEN conjunct1] ctxs(2) other
    by (simp add: fmt)
  have e: "untyped ''Req'' echo_unary background (Some (NewRequest ''Req'' ''m'')) start_world
     = echo_unary background (NewRequest ''Req'' ''m'') start_world"
    using mismatch [THEN conjunct2, THEN conjunct2, THEN conjunct2, THEN conjunct2, THEN conjunct1]
      ctxs(2) same
    by blast
  have f: "implementation
       (NewUnaryHandler ''Req'' example_NewHandler example_render ''/acme.Foo/Bar'' echo_unary [])
       cancelled ping_conn start_world
     = (Return (Some context_Canceled), start_world)"
    using without [THEN conjunct2, THEN conjunct2, THEN conjunct2, THEN conjunct2, THEN conjunct2,
        THEN conjunct1] plain ctxs(1) recv
    by blast
  have g: "implementation
       (NewUnaryHandler ''Req'' example_NewHandler example_render ''/acme.Foo/Bar'' echo_unary ?with)
       cancelled ping_conn start_world
     = (Return (Some context_Canceled), start_world\<lparr>net := 1\<rparr>)"
    using with_ic [THEN conjunct2, THEN conjunct2, THEN conjunct2, THEN conjunct2, THEN conjunct2,
        THEN conjunct2] configured recv counted
    by blast
  from a b c d e f g show ?thesis by blast
qed

end
